theory Spec2Isabelle
  imports Main "HOL-Library.Word"
begin

section \<open>The provider side of dubbo-js: \<^verbatim>\<open>packages/dubbo/src/server/dubbo-server.ts\<close>\<close>

text \<open>
  A shallow embedding of the class \<^verbatim>\<open>DubboServer\<close>: the routing table and
  \<^verbatim>\<open>matchService\<close>, the dispatcher \<^verbatim>\<open>invokeComposeChainRequest\<close> with its terminal
  stage \<^verbatim>\<open>handleRequest\<close>, \<^verbatim>\<open>use\<close>, \<^verbatim>\<open>registerServices\<close> with \<^verbatim>\<open>buildUrl\<close>, and
  the per-frame callback of \<^verbatim>\<open>handleSocketRequest\<close>.

  JavaScript objects are mutable and shared by reference; here every function takes the
  state it may mutate and returns it updated. A promise that settles is a pair of its
  outcome and the state at that moment, so that what was written before a \<^verbatim>\<open>throw\<close>
  is still there afterwards, as it is in the heap.
\<close>

subsection \<open>Values\<close>

text \<open>
  The JavaScript values that travel as arguments, return values and thrown values.
  \<open>JError\<close> and \<open>JTypeError\<close> are \<^verbatim>\<open>Error\<close> and \<^verbatim>\<open>TypeError\<close> objects with their
  message; \<open>JContext\<close> is the reference to the request's \<^verbatim>\<open>ResponseContext\<close> and
  \<open>JReceiver\<close> the reference to the service object a method is applied to, whose contents
  are threaded separately; \<open>JBoxed\<close> is the wrapper object of a primitive value and
  \<open>JNative\<close> an object of the platform, named, that is not looked into.
\<close>

datatype jsval =
    JUndefined
  | JNull
  | JBool bool
  | JNum int
  | JStr string
  | JObj "(string \<times> jsval) list"
  | JError string
  | JTypeError string
  | JContext
  | JReceiver
  | JBoxed jsval
  | JNative string

subsection \<open>Requests and the response context\<close>

text \<open>
  \<^verbatim>\<open>Request\<close> (serialization/request) is only read by the server: \<^verbatim>\<open>methodName\<close>,
  \<^verbatim>\<open>args\<close> (read as \<^verbatim>\<open>request.args || []\<close>, so possibly absent) and the attachment's
  \<^verbatim>\<open>path\<close>, \<^verbatim>\<open>group\<close> and \<^verbatim>\<open>version\<close>; \<open>None\<close> is \<^verbatim>\<open>undefined\<close>.
\<close>

record Attachment =
  path :: string
  group :: "string option"
  version :: "string option"

record Request =
  methodName :: string
  args :: "jsval list option"
  attachment :: Attachment

datatype ResponseStatus = OK | SERVICE_NOT_FOUND | SERVER_ERROR

record ResponseBody =
  res :: jsval
  err :: jsval

record ResponseContext =
  request :: Request
  status :: "ResponseStatus option"
  body :: ResponseBody

text \<open>
  Modelled from the spec: the constructor of \<^verbatim>\<open>ResponseContext\<close> (server/response-context
  is not under src/). The context is created fresh per request, its status is not yet
  set (\<open>None\<close>), and its body is an object whose \<^verbatim>\<open>res\<close> and \<^verbatim>\<open>err\<close> hold nothing.
\<close>

definition ResponseContext_new :: "Request \<Rightarrow> ResponseContext" where
  "ResponseContext_new req =
     \<lparr>request = req, status = None, body = \<lparr>res = JNull, err = JNull\<rparr>\<rparr>"

subsection \<open>Services, middlewares and the server\<close>

text \<open>
  The fields of a service object that the server reads and assigns. A service method is
  called as \<^verbatim>\<open>method.apply(service, [...args, ctx])\<close>: it receives the argument array,
  whose last element is the reference to the context, the fields of its receiver
  \<^verbatim>\<open>this\<close> and the content of the context, may read and assign both, and returns a value
  or throws one. (Of its receiver a method may assign these three fields; the
  \<^verbatim>\<open>methods\<close> object, which holds the methods themselves, is taken as not assigned by
  them.)
\<close>

record ServiceFields =
  dubboInterface :: string
  group :: "string option"
  version :: "string option"

datatype completion = Returned jsval | Thrown jsval

type_synonym Method =
  "jsval list \<Rightarrow> ServiceFields \<Rightarrow> ResponseContext \<Rightarrow> completion \<times> ServiceFields \<times> ResponseContext"

text \<open>
  What \<^verbatim>\<open>methods[name]\<close> can be: a function, or another value. The own properties of
  \<^verbatim>\<open>methods\<close> are functions, by the type \<^verbatim>\<open>IDubboService\<close>; a property that the object
  inherits from its prototype chain can be either.
\<close>

datatype Property = Callable Method | NotCallable jsval

text \<open>
  \<^verbatim>\<open>IDubboService\<close>: \<^verbatim>\<open>group\<close> and \<^verbatim>\<open>version\<close> are optional. \<^verbatim>\<open>methods\<close> is an object
  from names to functions: its own properties are an association list in the order of
  \<^verbatim>\<open>Object.keys\<close>, and \<open>inherited\<close> are the properties it inherits (for an object
  literal, those of \<^verbatim>\<open>Object.prototype\<close>). \<^verbatim>\<open>methods[name]\<close> reads the own property of
  that name and otherwise the inherited one.
\<close>

record IDubboService = ServiceFields +
  methods :: "(string \<times> Method) list"
  inherited :: "(string \<times> Property) list"

definition property :: "IDubboService \<Rightarrow> string \<Rightarrow> Property option" where
  "property service name =
     (case map_of (methods service) name of
        Some m \<Rightarrow> Some (Callable m)
      | None \<Rightarrow> map_of (inherited service) name)"

text \<open>\<^verbatim>\<open>typeof p === 'undefined'\<close> for the result of a property read.\<close>

definition isUndefined :: "Property option \<Rightarrow> bool" where
  "isUndefined p \<longleftrightarrow> p = None \<or> p = Some (NotCallable JUndefined)"

definition fieldsOf :: "IDubboService \<Rightarrow> ServiceFields" where
  "fieldsOf service =
     \<lparr>dubboInterface = dubboInterface service, group = group service, version = version service\<rparr>"

definition withFields :: "ServiceFields \<Rightarrow> IDubboService \<Rightarrow> IDubboService" where
  "withFields r service =
     service\<lparr>dubboInterface := dubboInterface r, group := group r, version := version r\<rparr>"

text \<open>
  What one run of a composed chain observes and changes: the context object, the
  variable \<^verbatim>\<open>index\<close> that the composed function closes over, the fields of the matched
  service object, which the terminal stage hands to the method as its receiver, and a
  record of the calls made: each stage the chain entered, each service method applied
  with its argument array, and the marks that the middlewares of the theorems below
  leave before and after their \<^verbatim>\<open>await next()\<close>.
\<close>

datatype event =
    StageCalled nat
  | MethodCalled string string "jsval list"
  | Before string
  | After string

record ChainState =
  ctx :: ResponseContext
  index :: int
  trace :: "event list"
  receiver :: ServiceFields

datatype outcome = Resolved | Rejected jsval

type_synonym Next = "ChainState \<Rightarrow> outcome \<times> ChainState"

type_synonym Middleware = "ChainState \<Rightarrow> Next \<Rightarrow> outcome \<times> ChainState"

text \<open>
  The server. The service objects are shared by reference between \<^verbatim>\<open>this.services\<close>
  and the values of \<^verbatim>\<open>this.serviceMap\<close>: a reference to a service object is its position
  in \<^verbatim>\<open>this.services\<close>, an array that is assigned once, in the constructor, and whose
  elements are taken to be distinct objects.
\<close>

record DubboServer =
  port :: nat
  registry :: string
  services :: "IDubboService list"
  serviceMap :: "string \<rightharpoonup> nat"
  middlewares :: "Middleware list"

subsection \<open>The router\<close>

text \<open>
  \<^verbatim>\<open>this.serviceMap.get(path)\<close>: the service object the map refers to under a name. (A
  reference held by the map always is a position of \<^verbatim>\<open>this.services\<close>.)
\<close>

definition descriptor :: "DubboServer \<Rightarrow> string \<Rightarrow> IDubboService option" where
  "descriptor srv name =
     (case serviceMap srv name of
        None \<Rightarrow> None
      | Some k \<Rightarrow> if k < length (services srv) then Some (services srv ! k) else None)"

definition matchService :: "DubboServer \<Rightarrow> Request \<Rightarrow> IDubboService option" where
  "matchService srv req =
     (let path' = path (attachment req);
          group' = (case Attachment.group (attachment req) of None \<Rightarrow> [] | Some g \<Rightarrow> g);
          version' = Attachment.version (attachment req)
      in case descriptor srv path' of
           None \<Rightarrow> None
         | Some service \<Rightarrow>
             if isUndefined (property service (methodName req))
                \<or> group service \<noteq> Some group'
                \<or> version service \<noteq> version'
             then None
             else Some service)"

subsection \<open>Composition of the chain\<close>

text \<open>
  Modelled from the spec: \<^verbatim>\<open>compose\<close> (the npm package koa-compose, not under src/), the
  index-driven runner of the ordered stage list: \<^verbatim>\<open>dispatch(i)\<close> rejects when
  \<^verbatim>\<open>i <= index\<close> (\<^verbatim>\<open>next()\<close> called twice), records \<^verbatim>\<open>index = i\<close>, resolves when the
  list is exhausted and otherwise calls stage \<^verbatim>\<open>i\<close> with the context and with
  \<^verbatim>\<open>dispatch(i + 1)\<close> as its \<^verbatim>\<open>next\<close>. The list argument is the part of the stage list
  from position \<open>i\<close> on. The composed function starts with \<^verbatim>\<open>index = -1\<close>.
\<close>

fun dispatch :: "nat \<Rightarrow> Middleware list \<Rightarrow> ChainState \<Rightarrow> outcome \<times> ChainState" where
  "dispatch i [] st =
     (if int i \<le> index st then (Rejected (JError ''next() called multiple times''), st)
      else (Resolved, st\<lparr>index := int i\<rparr>))"
| "dispatch i (fn # rest) st =
     (if int i \<le> index st then (Rejected (JError ''next() called multiple times''), st)
      else fn (st\<lparr>index := int i, trace := trace st @ [StageCalled i]\<rparr>)
              (\<lambda>st'. dispatch (Suc i) rest st'))"

definition compose :: "Middleware list \<Rightarrow> ChainState \<Rightarrow> outcome \<times> ChainState" where
  "compose middleware st = dispatch 0 middleware (st\<lparr>index := - 1\<rparr>)"

subsection \<open>The dispatcher\<close>

text \<open>
  \<^verbatim>\<open>checkRetValHessian\<close> (common/util) is not under src/; it is a parameter \<open>chk\<close>.
\<close>

text \<open>The argument array \<^verbatim>\<open>[...(request.args || []), ctx]\<close>.\<close>

definition argumentsOf :: "Request \<Rightarrow> jsval list" where
  "argumentsOf req = (case args req of None \<Rightarrow> [] | Some as \<Rightarrow> as) @ [JContext]"

text \<open>
  The terminal stage, the function \<^verbatim>\<open>handleRequest\<close> that closes over the matched
  service and the request. The status is assigned before the method is applied; \<^verbatim>\<open>res\<close>
  is assigned before the check of the return value, and \<^verbatim>\<open>ctx.body\<close> is replaced after
  the \<^verbatim>\<open>try\<close>. \<^verbatim>\<open>methods[name]\<close> is read when the stage runs; when it is not a function,
  \<^verbatim>\<open>method.apply(...)\<close> throws a \<^verbatim>\<open>TypeError\<close> inside the \<^verbatim>\<open>try\<close> (its message, which
  depends on the value and on the platform, is abbreviated to one text).
\<close>

definition handleRequest :: "(jsval \<Rightarrow> bool) \<Rightarrow> IDubboService \<Rightarrow> Request \<Rightarrow> Middleware" where
  "handleRequest chk service req st next =
     (let c0 = (ctx st)\<lparr>status := Some OK\<rparr>;
          argv = argumentsOf req
      in case property service (methodName req) of
           Some (Callable method) \<Rightarrow>
             (case method argv (receiver st) c0 of
                (Thrown error, r1, c1) \<Rightarrow>
                  (Resolved,
                   st\<lparr>ctx := c1\<lparr>body := \<lparr>res = JNull, err = error\<rparr>\<rparr>,
                      trace := trace st @ [MethodCalled (dubboInterface service) (methodName req) argv],
                      receiver := r1\<rparr>)
              | (Returned v, r1, c1) \<Rightarrow>
                  (Resolved,
                   st\<lparr>ctx := c1\<lparr>body := \<lparr>res = v,
                        err = (if chk v then JNull
                               else JError (path (attachment req) @ ''#'' @ methodName req
                                            @ '' return value not hessian type''))\<rparr>\<rparr>,
                      trace := trace st @ [MethodCalled (dubboInterface service) (methodName req) argv],
                      receiver := r1\<rparr>))
         | _ \<Rightarrow>
             (Resolved,
              st\<lparr>ctx := c0\<lparr>body := \<lparr>res = JNull,
                   err = JTypeError ''method.apply is not a function''\<rparr>\<rparr>\<rparr>))"

definition notFoundMessage :: "Request \<Rightarrow> string" where
  "notFoundMessage req =
     ''Service not found with '' @ path (attachment req) @ '' and '' @ methodName req
     @ '', group:'' @ (case Attachment.group (attachment req) of None \<Rightarrow> [] | Some g \<Rightarrow> g)
     @ '', version:'' @ (case Attachment.version (attachment req) of
                           None \<Rightarrow> ''undefined'' | Some v \<Rightarrow> v)"

text \<open>
  The state in which the chain of a matched request starts: the fresh context, nothing
  recorded, and the fields the matched service object has.
\<close>

definition atStart :: "Request \<Rightarrow> IDubboService \<Rightarrow> ChainState" where
  "atStart req service =
     \<lparr>ctx = ResponseContext_new req, index = - 1, trace = [], receiver = fieldsOf service\<rparr>"

text \<open>
  \<^verbatim>\<open>invokeComposeChainRequest\<close> after \<^verbatim>\<open>decodeDubboRequest\<close>: the result is the context
  handed to the encoder, together with the record of the calls made on the way.
\<close>

definition dispatchRequest ::
  "(jsval \<Rightarrow> bool) \<Rightarrow> DubboServer \<Rightarrow> Request \<Rightarrow> ResponseContext \<times> event list" where
  "dispatchRequest chk srv req =
     (let service = matchService srv req;
          c = ResponseContext_new req
      in case service of
           None \<Rightarrow>
             (c\<lparr>status := Some SERVICE_NOT_FOUND,
                body := (body c)\<lparr>err := JError (notFoundMessage req)\<rparr>\<rparr>, [])
         | Some service \<Rightarrow>
             (case compose (middlewares srv @ [handleRequest chk service req]) (atStart req service) of
                (Resolved, st) \<Rightarrow> (ctx st, trace st)
              | (Rejected e, st) \<Rightarrow>
                  ((ctx st)\<lparr>status := Some SERVER_ERROR, body := (body (ctx st))\<lparr>err := e\<rparr>\<rparr>,
                   trace st)))"

text \<open>
  The server after \<^verbatim>\<open>invokeComposeChainRequest\<close>: the matched service object has the
  fields that the chain left in it; nothing else of the server is assigned.
\<close>

definition afterRequest :: "(jsval \<Rightarrow> bool) \<Rightarrow> DubboServer \<Rightarrow> Request \<Rightarrow> DubboServer" where
  "afterRequest chk srv req =
     (case matchService srv req of
        None \<Rightarrow> srv
      | Some service \<Rightarrow>
          (case serviceMap srv (path (attachment req)) of
             None \<Rightarrow> srv
           | Some k \<Rightarrow>
               srv\<lparr>services :=
                     (services srv)
                       [k := withFields
                               (receiver (snd (compose (middlewares srv
                                                         @ [handleRequest chk service req])
                                                 (atStart req service))))
                               (services srv ! k)]\<rparr>))"

subsection \<open>Registering middlewares\<close>

text \<open>
  The argument of \<^verbatim>\<open>use\<close> is any JavaScript value: a function, or a value for which
  \<^verbatim>\<open>typeof fn != 'function'\<close>. The result is the thrown value, if any, and the server.
\<close>

datatype UseArg = Function Middleware | NotFunction jsval

definition use :: "UseArg \<Rightarrow> DubboServer \<Rightarrow> jsval option \<times> DubboServer" where
  "use fn srv =
     (case fn of
        NotFunction v \<Rightarrow> (Some (JTypeError ''middleware must be a function''), srv)
      | Function f \<Rightarrow> (None, srv\<lparr>middlewares := middlewares srv @ [f]\<rparr>))"

subsection \<open>Provider URLs\<close>

text \<open>
  Strings are sequences of bytes (UTF-8). \<^verbatim>\<open>encodeURIComponent\<close> keeps the letters, the
  digits and \<^verbatim>\<open>- _ . ! ~ * ' ( )\<close> and writes every other byte as \<^verbatim>\<open>%XX\<close> in upper-case
  hexadecimal; \<^verbatim>\<open>querystring.escape\<close> keeps the same characters.
\<close>

definition hexDigit :: "nat \<Rightarrow> char" where
  "hexDigit n = ''0123456789ABCDEF'' ! (n mod 16)"

definition percentEncode :: "char \<Rightarrow> string" where
  "percentEncode c = [CHR ''%'', hexDigit (of_char c div 16), hexDigit (of_char c mod 16)]"

definition unescaped :: "char \<Rightarrow> bool" where
  "unescaped c \<longleftrightarrow>
     c \<in> set (''ABCDEFGHIJKLMNOPQRSTUVWXYZabcdefghijklmnopqrstuvwxyz0123456789-_.!~*()''
              @ [CHR 0x27])"

definition encodeURIComponent :: "string \<Rightarrow> string" where
  "encodeURIComponent s = concat (map (\<lambda>c. if unescaped c then [c] else percentEncode c) s)"

definition qsEscape :: "string \<Rightarrow> string" where
  "qsEscape s = encodeURIComponent s"

text \<open>A non-negative integer as JavaScript prints it in a template or a query string.\<close>

definition digit :: "nat \<Rightarrow> char" where
  "digit n = ''0123456789'' ! (n mod 10)"

function string_of_nat :: "nat \<Rightarrow> string" where
  "string_of_nat n =
     (if n < 10 then [digit n] else string_of_nat (n div 10) @ [digit (n mod 10)])"
  by pat_completeness auto
termination
  by (relation "measure (\<lambda>n. n)") auto

declare string_of_nat.simps [simp del]

text \<open>\<^verbatim>\<open>Array.prototype.join\<close> on an array of strings.\<close>

fun join :: "string \<Rightarrow> string list \<Rightarrow> string" where
  "join sep [] = []"
| "join sep [x] = x"
| "join sep (x # y # ys) = x @ sep @ join sep (y # ys)"

text \<open>
  \<^verbatim>\<open>querystring.stringify\<close> on an object of primitive values, given as its entries in
  key order: \<^verbatim>\<open>key=value\<close> pairs, both sides escaped, joined by \<^verbatim>\<open>&\<close>. A value that
  is \<^verbatim>\<open>undefined\<close> prints as the empty string.
\<close>

datatype qsval = QStr string | QNum nat | QBool bool | QUndefined

fun stringifyPrimitive :: "qsval \<Rightarrow> string" where
  "stringifyPrimitive (QStr s) = s"
| "stringifyPrimitive (QNum n) = string_of_nat n"
| "stringifyPrimitive (QBool b) = (if b then ''true'' else ''false'')"
| "stringifyPrimitive QUndefined = []"

definition stringify :: "(string \<times> qsval) list \<Rightarrow> string" where
  "stringify obj =
     join ''&'' (map (\<lambda>(k, v). qsEscape k @ ''='' @ qsEscape (stringifyPrimitive v)) obj)"

text \<open>
  What the process supplies: \<^verbatim>\<open>ip.address()\<close>, \<^verbatim>\<open>process.pid\<close> and the clock, where
  \<open>Date_now k\<close> is the value of \<^verbatim>\<open>Date.now()\<close> when the \<open>k\<close>-th service of a
  registration is published.
\<close>

record Process =
  ipAddr :: string
  pid :: nat
  Date_now :: "nat \<Rightarrow> nat"

definition optional :: "string option \<Rightarrow> qsval" where
  "optional x = (case x of None \<Rightarrow> QUndefined | Some s \<Rightarrow> QStr s)"

definition buildUrl :: "Process \<Rightarrow> DubboServer \<Rightarrow> nat \<Rightarrow> IDubboService \<Rightarrow> string" where
  "buildUrl env srv k service =
     (let methodName' = join '','' (map fst (methods service))
      in encodeURIComponent
           (''dubbo://'' @ ipAddr env @ '':'' @ string_of_nat (port srv) @ ''/''
            @ dubboInterface service @ ''?''
            @ stringify
                [(''group'', optional (group service)),
                 (''version'', optional (version service)),
                 (''method'', QStr methodName'),
                 (''side'', QStr ''provider''),
                 (''pid'', QNum (pid env)),
                 (''generic'', QBool False),
                 (''protocal'', QStr ''dubbo''),
                 (''dynamic'', QBool True),
                 (''category'', QStr ''providers''),
                 (''anyhost'', QBool True),
                 (''timestamp'', QNum (Date_now env k))]))"

subsection \<open>Registration\<close>

text \<open>\<^verbatim>\<open>x || d\<close> on an optional string: \<^verbatim>\<open>undefined\<close> and the empty string are falsy.\<close>

definition orElse :: "string option \<Rightarrow> string \<Rightarrow> string" where
  "orElse x d = (case x of None \<Rightarrow> d | Some s \<Rightarrow> if s = [] then d else s)"

definition normalize :: "IDubboService \<Rightarrow> IDubboService" where
  "normalize service =
     service\<lparr>group := Some (orElse (group service) []),
             version := Some (orElse (version service) ''0.0.0'')\<rparr>"

text \<open>
  The call handed to the registry transport: \<^verbatim>\<open>{type, services}\<close>.
\<close>

datatype RegistryCall = Publish string "(string \<times> string) list"

text \<open>
  The loop \<^verbatim>\<open>this.services.map(...)\<close> of \<^verbatim>\<open>registerServices\<close>, from the \<open>k\<close>-th service
  on: each service object is normalized in place, stored in \<^verbatim>\<open>serviceMap\<close> under its
  interface, and paired with its URL; the \<open>k\<close>-th service object is the one at position
  \<open>k\<close>. The result is the services as they are afterwards, the map and the pairs.
\<close>

fun registerEach ::
  "Process \<Rightarrow> DubboServer \<Rightarrow> nat \<Rightarrow> IDubboService list \<Rightarrow> (string \<rightharpoonup> nat)
   \<Rightarrow> IDubboService list \<times> (string \<rightharpoonup> nat) \<times> (string \<times> string) list" where
  "registerEach env srv k [] m = ([], m, [])"
| "registerEach env srv k (service # rest) m =
     (let service' = normalize service;
          m' = m(dubboInterface service' \<mapsto> k);
          url = buildUrl env srv k service';
          (rest', m'', pairs) = registerEach env srv (Suc k) rest m'
      in (service' # rest', m'', (dubboInterface service', url) # pairs))"

definition registerServices :: "Process \<Rightarrow> DubboServer \<Rightarrow> DubboServer \<times> RegistryCall" where
  "registerServices env srv =
     (let (services', m, registryService) = registerEach env srv 0 (services srv) (serviceMap srv)
      in (srv\<lparr>services := services', serviceMap := m\<rparr>, Publish ''provider'' registryService))"

text \<open>
  The constructor leaves the map and the middleware list empty and starts \<^verbatim>\<open>listen\<close>,
  which is asynchronous. When the listener is bound to the port chosen by
  \<^verbatim>\<open>randomPort\<close>, its callback calls \<^verbatim>\<open>registerServices\<close>. (\<^verbatim>\<open>Retry\<close> and the port
  search are not under src/ and no state of theirs is kept here.)
\<close>

definition DubboServer_from :: "string \<Rightarrow> IDubboService list option \<Rightarrow> DubboServer" where
  "DubboServer_from registry' services' =
     \<lparr>port = 0, registry = registry',
      services = (case services' of None \<Rightarrow> [] | Some ss \<Rightarrow> ss),
      serviceMap = Map.empty, middlewares = []\<rparr>"

definition listening :: "Process \<Rightarrow> nat \<Rightarrow> DubboServer \<Rightarrow> DubboServer \<times> RegistryCall" where
  "listening env p srv = registerServices env (srv\<lparr>port := p\<rparr>)"

text \<open>
  A server in service: constructed with its services, bound to port \<open>p\<close>, and with the
  middlewares \<open>fs\<close> registered by \<^verbatim>\<open>use\<close>, one after the other.
\<close>

definition started ::
  "Process \<Rightarrow> nat \<Rightarrow> string \<Rightarrow> IDubboService list option \<Rightarrow> Middleware list \<Rightarrow> DubboServer" where
  "started env p registry' services' fs =
     foldl (\<lambda>srv f. snd (use (Function f) srv))
       (fst (listening env p (DubboServer_from registry' services'))) fs"

subsection \<open>Connections\<close>

type_synonym Buffer = "8 word list"

text \<open>
  The wire codec is not under src/: \<^verbatim>\<open>HeartBeat.isHeartBeat\<close>, \<^verbatim>\<open>decodeDubboRequest\<close>,
  \<^verbatim>\<open>DubboResponseEncoder\<close> and \<^verbatim>\<open>checkRetValHessian\<close> are parameters.
\<close>

record Codec =
  isHeartBeat :: "Buffer \<Rightarrow> bool"
  decodeDubboRequest :: "Buffer \<Rightarrow> Request"
  encode :: "ResponseContext \<Rightarrow> Buffer"
  checkRetValHessian :: "jsval \<Rightarrow> bool"

definition invokeComposeChainRequest ::
  "Codec \<Rightarrow> DubboServer \<Rightarrow> Buffer \<Rightarrow> ResponseContext \<times> event list" where
  "invokeComposeChainRequest codec srv data =
     dispatchRequest (checkRetValHessian codec) srv (decodeDubboRequest codec data)"

text \<open>
  Modelled from the spec: the heartbeat session (serialization/heartbeat is not under
  src/). It holds the time of the last outbound write and the time of the last heartbeat
  activity; \<^verbatim>\<open>emit\<close> signals the session, recording that heartbeat activity occurred,
  and \<^verbatim>\<open>setWriteTimestamp\<close> records an outbound write.
\<close>

record HeartBeat =
  lastWriteTimestamp :: nat
  lastActivityTimestamp :: nat

definition emit :: "nat \<Rightarrow> HeartBeat \<Rightarrow> HeartBeat" where
  "emit now h = h\<lparr>lastActivityTimestamp := now\<rparr>"

definition setWriteTimestamp :: "nat \<Rightarrow> HeartBeat \<Rightarrow> HeartBeat" where
  "setWriteTimestamp now h = h\<lparr>lastWriteTimestamp := now\<rparr>"

text \<open>
  One accepted socket: its heartbeat session, the frames the handler wrote to it with
  \<^verbatim>\<open>socket.write\<close>, and the frames it passed to \<^verbatim>\<open>invokeComposeChainRequest\<close>.
\<close>

record Connection =
  heartbeat :: HeartBeat
  written :: "Buffer list"
  dispatched :: "Buffer list"

text \<open>
  The callback subscribed to the frame stream in \<^verbatim>\<open>handleSocketRequest\<close>, for a frame
  handled at time \<open>now\<close>.
\<close>

definition onData :: "Codec \<Rightarrow> DubboServer \<Rightarrow> Connection \<Rightarrow> nat \<times> Buffer \<Rightarrow> Connection" where
  "onData codec srv conn frame =
     (case frame of (now, data) \<Rightarrow>
        if isHeartBeat codec data then conn\<lparr>heartbeat := emit now (heartbeat conn)\<rparr>
        else
          (let c = fst (invokeComposeChainRequest codec srv data)
           in conn\<lparr>heartbeat := setWriteTimestamp now (heartbeat conn),
                   written := written conn @ [encode codec c],
                   dispatched := dispatched conn @ [data]\<rparr>))"

text \<open>The server after the callback has handled a frame.\<close>

definition afterData :: "Codec \<Rightarrow> DubboServer \<Rightarrow> nat \<times> Buffer \<Rightarrow> DubboServer" where
  "afterData codec srv frame =
     (case frame of (now, data) \<Rightarrow>
        if isHeartBeat codec data then srv
        else afterRequest (checkRetValHessian codec) srv (decodeDubboRequest codec data))"

text \<open>
  Modelled from the spec: the frame stream (\<^verbatim>\<open>DecodeBuffer\<close> is not under src/)
  delivers the frames of a connection in order, and each frame is handled to the end
  before the next one.
\<close>

fun subscribe :: "Codec \<Rightarrow> DubboServer \<Rightarrow> Connection \<Rightarrow> (nat \<times> Buffer) list \<Rightarrow> Connection" where
  "subscribe codec srv conn [] = conn"
| "subscribe codec srv conn (frame # frames) =
     subscribe codec (afterData codec srv frame) (onData codec srv conn frame) frames"

subsection \<open>Middlewares of a known shape\<close>

text \<open>
  The middlewares are the caller's functions. The theorems about the order of execution
  are stated for middlewares of these shapes, each leaving the mark \<open>Before name\<close> when it
  starts and \<open>After name\<close> when its \<^verbatim>\<open>await next()\<close> has returned:
  \<^item> \<open>around name pre post\<close> is
    \<^verbatim>\<open>async (ctx, next) => { pre(ctx); await next(); post(ctx) }\<close>;
  \<^item> \<open>withoutNext name pre\<close> is \<^verbatim>\<open>async (ctx, next) => { pre(ctx) }\<close>;
  \<^item> \<open>throwBefore name e\<close> is \<^verbatim>\<open>async (ctx, next) => { throw e }\<close>;
  \<^item> \<open>throwAfter name e\<close> is \<^verbatim>\<open>async (ctx, next) => { await next(); throw e }\<close>.
\<close>

definition around ::
  "string \<Rightarrow> (ResponseContext \<Rightarrow> ResponseContext) \<Rightarrow> (ResponseContext \<Rightarrow> ResponseContext)
   \<Rightarrow> Middleware" where
  "around name pre post st next =
     (case next (st\<lparr>ctx := pre (ctx st), trace := trace st @ [Before name]\<rparr>) of
        (Resolved, st') \<Rightarrow>
          (Resolved, st'\<lparr>ctx := post (ctx st'), trace := trace st' @ [After name]\<rparr>)
      | (Rejected e, st') \<Rightarrow> (Rejected e, st'))"

definition withoutNext :: "string \<Rightarrow> (ResponseContext \<Rightarrow> ResponseContext) \<Rightarrow> Middleware" where
  "withoutNext name pre st next =
     (Resolved, st\<lparr>ctx := pre (ctx st), trace := trace st @ [Before name]\<rparr>)"

definition throwBefore :: "string \<Rightarrow> jsval \<Rightarrow> Middleware" where
  "throwBefore name e st next = (Rejected e, st\<lparr>trace := trace st @ [Before name]\<rparr>)"

definition throwAfter :: "string \<Rightarrow> jsval \<Rightarrow> Middleware" where
  "throwAfter name e st next =
     (case next (st\<lparr>trace := trace st @ [Before name]\<rparr>) of
        (Resolved, st') \<Rightarrow> (Rejected e, st')
      | (Rejected e', st') \<Rightarrow> (Rejected e', st'))"

definition onion ::
  "string \<times> (ResponseContext \<Rightarrow> ResponseContext) \<times> (ResponseContext \<Rightarrow> ResponseContext)
   \<Rightarrow> Middleware" where
  "onion spec = (case spec of (name, pre, post) \<Rightarrow> around name pre post)"

text \<open>
  What a run of middlewares \<open>around\<close> records on the way in, when the first of them is
  stage \<open>i\<close>: each stage is entered and leaves its mark, in order.
\<close>

definition entering :: "nat \<Rightarrow> string list \<Rightarrow> event list" where
  "entering i names =
     concat (map (\<lambda>(j, name). [StageCalled j, Before name]) (enumerate i names))"

text \<open>
  What the terminal stage records: the application of the method, when \<^verbatim>\<open>methods[name]\<close>
  is a function.
\<close>

definition applied :: "IDubboService \<Rightarrow> Request \<Rightarrow> event list" where
  "applied service req =
     (case property service (methodName req) of
        Some (Callable method) \<Rightarrow>
          [MethodCalled (dubboInterface service) (methodName req) (argumentsOf req)]
      | _ \<Rightarrow> [])"

text \<open>
  The context after the parts before \<^verbatim>\<open>await next()\<close> of middlewares \<open>around\<close> have run on
  it, first to last, and after their parts behind it have, last to first.
\<close>

definition inward ::
  "(string \<times> (ResponseContext \<Rightarrow> ResponseContext) \<times> (ResponseContext \<Rightarrow> ResponseContext)) list
   \<Rightarrow> ResponseContext \<Rightarrow> ResponseContext" where
  "inward specs c = fold (\<lambda>(name, pre, post). pre) specs c"

definition outward ::
  "(string \<times> (ResponseContext \<Rightarrow> ResponseContext) \<times> (ResponseContext \<Rightarrow> ResponseContext)) list
   \<Rightarrow> ResponseContext \<Rightarrow> ResponseContext" where
  "outward specs c = foldr (\<lambda>(name, pre, post). post) specs c"

text \<open>
  User code that never makes the status \<^verbatim>\<open>SERVER_ERROR\<close>: a method that leaves a context
  whose status is not \<^verbatim>\<open>SERVER_ERROR\<close> with such a status, and a middleware that does so
  provided its \<^verbatim>\<open>next\<close> does.
\<close>

definition methodKeepsStatus :: "Method \<Rightarrow> bool" where
  "methodKeepsStatus m \<longleftrightarrow>
     (\<forall>argv r c. status c \<noteq> Some SERVER_ERROR
        \<longrightarrow> status (snd (snd (m argv r c))) \<noteq> Some SERVER_ERROR)"

definition keepsStatus :: "Middleware \<Rightarrow> bool" where
  "keepsStatus f \<longleftrightarrow>
     (\<forall>st next.
        status (ctx st) \<noteq> Some SERVER_ERROR
        \<and> (\<forall>st'. status (ctx st') \<noteq> Some SERVER_ERROR
               \<longrightarrow> status (ctx (snd (next st'))) \<noteq> Some SERVER_ERROR)
        \<longrightarrow> status (ctx (snd (f st next))) \<noteq> Some SERVER_ERROR)"




subsection \<open>A provider used in the examples\<close>

text \<open>
  The properties that an object written as a literal inherits from \<^verbatim>\<open>Object.prototype\<close>
  (Node.js), as they behave when they are read from the \<^verbatim>\<open>methods\<close> object of a service
  and applied to the service with the argument array of a request. The own properties of
  a registered service are \<^verbatim>\<open>dubboInterface\<close>, \<^verbatim>\<open>group\<close>, \<^verbatim>\<open>version\<close> and \<^verbatim>\<open>methods\<close>.
  \<open>keyAmong v names\<close> is whether the property key that \<open>v\<close> converts to is one of
  \<open>names\<close>, which are identifiers; the conversion throws for an object whose own
  \<^verbatim>\<open>toString\<close> is not a function.
\<close>

definition keyAmong :: "jsval \<Rightarrow> string list \<Rightarrow> bool option" where
  "keyAmong v names =
     (case v of
        JStr s \<Rightarrow> Some (s \<in> set names)
      | JBoxed (JStr s) \<Rightarrow> Some (s \<in> set names)
      | JObj kvs \<Rightarrow> if map_of kvs ''toString'' = None then Some False else None
      | _ \<Rightarrow> Some False)"

definition Object_constructor :: Method where
  "Object_constructor argv r c =
     (case hd argv of
        JUndefined \<Rightarrow> (Returned (JObj []), r, c)
      | JNull \<Rightarrow> (Returned (JObj []), r, c)
      | JBool b \<Rightarrow> (Returned (JBoxed (JBool b)), r, c)
      | JNum n \<Rightarrow> (Returned (JBoxed (JNum n)), r, c)
      | JStr s \<Rightarrow> (Returned (JBoxed (JStr s)), r, c)
      | v \<Rightarrow> (Returned v, r, c))"

definition defineAccessor :: Method where
  "defineAccessor argv r c = (Thrown (JTypeError ''Expecting function''), r, c)"

definition hasOwnProperty :: Method where
  "hasOwnProperty argv r c =
     (case keyAmong (hd argv) [''dubboInterface'', ''group'', ''version'', ''methods''] of
        None \<Rightarrow> (Thrown (JTypeError ''Cannot convert object to primitive value''), r, c)
      | Some b \<Rightarrow> (Returned (JBool b), r, c))"

definition lookupAccessor :: "string \<Rightarrow> Method" where
  "lookupAccessor kind argv r c =
     (case keyAmong (hd argv) [''__proto__''] of
        None \<Rightarrow> (Thrown (JTypeError ''Cannot convert object to primitive value''), r, c)
      | Some b \<Rightarrow> (Returned (if b then JNative (kind @ '' __proto__'') else JUndefined), r, c))"

definition isPrototypeOf :: Method where
  "isPrototypeOf argv r c = (Returned (JBool False), r, c)"

definition objectToString :: Method where
  "objectToString argv r c = (Returned (JStr ''[object Object]''), r, c)"

definition valueOf :: Method where
  "valueOf argv r c = (Returned JReceiver, r, c)"

definition ObjectPrototype :: "(string \<times> Property) list" where
  "ObjectPrototype =
     [(''constructor'', Callable Object_constructor),
      (''__defineGetter__'', Callable defineAccessor),
      (''__defineSetter__'', Callable defineAccessor),
      (''hasOwnProperty'', Callable hasOwnProperty),
      (''__lookupGetter__'', Callable (lookupAccessor ''get'')),
      (''__lookupSetter__'', Callable (lookupAccessor ''set'')),
      (''isPrototypeOf'', Callable isPrototypeOf),
      (''propertyIsEnumerable'', Callable hasOwnProperty),
      (''toString'', Callable objectToString),
      (''valueOf'', Callable valueOf),
      (''__proto__'', NotCallable (JNative ''Object.prototype'')),
      (''toLocaleString'', Callable objectToString)]"

text \<open>
  The descriptor \<^verbatim>\<open>{dubboInterface: 'com.foo.Bar', methods: {hello: (name, ctx) => 'hi ' + name}}\<close>
  with no group and no version, published from port 20880, and requests for \<^verbatim>\<open>hello\<close>
  with the argument \<^verbatim>\<open>'world'\<close>. (\<open>hello\<close> greets a string; for any other first argument
  it is given the result for \<^verbatim>\<open>undefined\<close>.)
\<close>

definition hello :: Method where
  "hello argv r c =
     (case argv of
        JStr name # _ \<Rightarrow> (Returned (JStr (''hi '' @ name)), r, c)
      | _ \<Rightarrow> (Returned (JStr ''hi undefined''), r, c))"

definition fooBar :: IDubboService where
  "fooBar = \<lparr>dubboInterface = ''com.foo.Bar'', group = None, version = None,
             methods = [(''hello'', hello)], inherited = ObjectPrototype\<rparr>"

definition localhost :: Process where
  "localhost = \<lparr>ipAddr = ''192.168.0.7'', pid = 4711, Date_now = (\<lambda>k. 1600000000000 + k)\<rparr>"

definition provider :: "IDubboService list \<Rightarrow> Middleware list \<Rightarrow> DubboServer" where
  "provider ss fs = started localhost 20880 ''localhost:2181'' (Some ss) fs"

definition helloRequest :: "string option \<Rightarrow> string option \<Rightarrow> Request" where
  "helloRequest g v =
     \<lparr>methodName = ''hello'', args = Some [JStr ''world''],
      attachment = \<lparr>path = ''com.foo.Bar'', group = g, version = v\<rparr>\<rparr>"

text \<open>
  The same request for the name \<^verbatim>\<open>toString\<close>, which the descriptor does not list under
  \<^verbatim>\<open>methods\<close>.
\<close>

definition toStringRequest :: Request where
  "toStringRequest = (helloRequest None (Some ''0.0.0''))\<lparr>methodName := ''toString''\<rparr>"

text \<open>
  A codec for the examples: the frame \<open>ping\<close> is the heartbeat, every other frame decodes
  to the request for \<^verbatim>\<open>hello\<close>, a response is encoded as one byte for its status, and
  an object passes the check of return values only if it names its Java class.
\<close>

definition ping :: Buffer where
  "ping = [0xda, 0xbb, 0xe2, 0]"

definition javaTyped :: "jsval \<Rightarrow> bool" where
  "javaTyped v = (case v of JObj kvs \<Rightarrow> map_of kvs ''$class'' \<noteq> None | _ \<Rightarrow> True)"

definition statusByte :: "ResponseContext \<Rightarrow> Buffer" where
  "statusByte c =
     (case status c of
        None \<Rightarrow> [0]
      | Some OK \<Rightarrow> [20]
      | Some SERVICE_NOT_FOUND \<Rightarrow> [60]
      | Some SERVER_ERROR \<Rightarrow> [80])"

definition wire :: Codec where
  "wire = \<lparr>isHeartBeat = (\<lambda>data. data = ping),
           decodeDubboRequest = (\<lambda>data. helloRequest None (Some ''0.0.0'')),
           encode = statusByte,
           checkRetValHessian = javaTyped\<rparr>"

text \<open>A connection that was just accepted, at time 0.\<close>

definition accepted :: Connection where
  "accepted = \<lparr>heartbeat = \<lparr>lastWriteTimestamp = 0, lastActivityTimestamp = 0\<rparr>,
               written = [], dispatched = []\<rparr>"

text \<open>
  Further examples: a method that assigns the status of the context it receives and
  throws, a method that returns a plain object (which does not name a Java class), a
  method \<^verbatim>\<open>function () { this.version = '9.9.9'; return null }\<close> that assigns a field of
  its receiver, a method that throws \<^verbatim>\<open>undefined\<close>, the provider's service with another
  method under \<^verbatim>\<open>hello\<close>, and a middleware that assigns the status after
  \<^verbatim>\<open>await next()\<close>.
\<close>

definition deny :: Method where
  "deny argv r c = (Thrown (JError ''denied''), r, c\<lparr>status := Some SERVER_ERROR\<rparr>)"




definition barWith :: "Method \<Rightarrow> IDubboService" where
  "barWith m = fooBar\<lparr>methods := [(''hello'', m)]\<rparr>"


definition audit :: Middleware where
  "audit = around ''audit'' id (\<lambda>c. c\<lparr>status := Some SERVER_ERROR\<rparr>)"


section \<open>Properties\<close>

subsection \<open>Registration and routing\<close>

lemma dubboInterface_normalize [simp]: "dubboInterface (normalize service) = dubboInterface service"
  by (simp add: normalize_def)

lemma methods_normalize [simp]: "methods (normalize service) = methods service"
  by (simp add: normalize_def)

lemma inherited_normalize [simp]: "inherited (normalize service) = inherited service"
  by (cases service) (simp add: normalize_def)

lemma property_normalize [simp]: "property (normalize service) name = property service name"
  by (simp add: property_def split: option.splits)

lemma normalize_idem [simp]: "normalize (normalize service) = normalize service"
  by (auto simp: normalize_def orElse_def split: option.splits if_splits)

lemma withFields_fieldsOf [simp]: "withFields (fieldsOf service) service = service"
  by (simp add: withFields_def fieldsOf_def)

lemma methods_withFields [simp]: "methods (withFields r service) = methods service"
  by (simp add: withFields_def)

lemma inherited_withFields [simp]: "inherited (withFields r service) = inherited service"
  by (simp add: withFields_def)

lemma registerEach_services: "fst (registerEach env srv k ss m) = map normalize ss"
  by (induction ss arbitrary: k m) (simp_all add: Let_def split_beta)

lemma registerEach_map:
  "fst (snd (registerEach env srv k ss m))
     = foldl (\<lambda>m p. m(dubboInterface (snd p) \<mapsto> fst p)) m (enumerate k ss)"
  by (induction ss arbitrary: k m) (simp_all add: Let_def split_beta)

lemma registerEach_pairs:
  "snd (snd (registerEach env srv k ss m))
     = map (\<lambda>(j, service). (dubboInterface service, buildUrl env srv j (normalize service)))
         (enumerate k ss)"
  by (induction ss arbitrary: k m) (simp_all add: Let_def split_beta)

lemma serviceMap_registerServices:
  "serviceMap (fst (registerServices env srv))
     = foldl (\<lambda>m p. m(dubboInterface (snd p) \<mapsto> fst p)) (serviceMap srv)
         (enumerate 0 (services srv))"
  using registerEach_map [of env srv 0 "services srv" "serviceMap srv"]
  by (simp add: registerServices_def split_beta)

lemma services_registerServices:
  "services (fst (registerServices env srv)) = map normalize (services srv)"
  using registerEach_services [of env srv 0 "services srv" "serviceMap srv"]
  by (simp add: registerServices_def split_beta)

lemma middlewares_registerServices [simp]:
  "middlewares (fst (registerServices env srv)) = middlewares srv"
  by (simp add: registerServices_def split_beta)

lemma use_all: "middlewares (foldl (\<lambda>s f. snd (use (Function f) s)) srv fs) = middlewares srv @ fs"
  by (induction fs arbitrary: srv) (simp_all add: use_def)

lemma use_all_serviceMap: "serviceMap (foldl (\<lambda>s f. snd (use (Function f) s)) srv fs) = serviceMap srv"
  by (induction fs arbitrary: srv) (simp_all add: use_def)

lemma services_use_all: "services (foldl (\<lambda>s f. snd (use (Function f) s)) srv fs) = services srv"
  by (induction fs arbitrary: srv) (simp_all add: use_def)

lemma started_serviceMap:
  "serviceMap (started env p reg (Some ss) fs)
     = foldl (\<lambda>m p. m(dubboInterface (snd p) \<mapsto> fst p)) Map.empty (enumerate 0 ss)"
  by (simp add: started_def use_all_serviceMap listening_def serviceMap_registerServices
      DubboServer_from_def)

lemma started_services: "services (started env p reg (Some ss) fs) = map normalize ss"
  by (simp add: started_def services_use_all listening_def services_registerServices
      DubboServer_from_def)

lemma started_middlewares: "middlewares (started env p reg ss fs) = fs"
  by (simp add: started_def use_all listening_def DubboServer_from_def)

lemma provider_middlewares: "middlewares (provider ss fs) = fs"
  by (simp add: provider_def started_middlewares)

lemma find_append:
  "find P (xs @ ys) = (case find P xs of None \<Rightarrow> find P ys | Some x \<Rightarrow> Some x)"
  by (induction xs) simp_all

lemma find_Some_set: "find P xs = Some x \<Longrightarrow> x \<in> set xs \<and> P x"
  by (induction xs) (auto split: if_splits)

lemma find_rev_enumerate:
  "(case find (\<lambda>p. P (snd p)) (rev (enumerate 0 ss)) of
      None \<Rightarrow> find P (rev ss) = None
    | Some q \<Rightarrow> fst q < length ss \<and> ss ! fst q = snd q \<and> find P (rev ss) = Some (snd q))"
  by (induction ss rule: rev_induct)
     (auto simp: enumerate_append_eq nth_append split: option.splits)

lemma lookup_registered:
  "foldl (\<lambda>m p. m(dubboInterface (snd p) \<mapsto> fst p)) m js i
     = (case map_option fst (find (\<lambda>p. dubboInterface (snd p) = i) (rev js)) of
          None \<Rightarrow> m i
        | Some j \<Rightarrow> Some j)"
  by (induction js arbitrary: m) (auto simp: find_append split: option.splits)

text \<open>
  The routing table of a server in service: a name refers to the service registered
  last under it, normalized.
\<close>

lemma started_descriptor:
  "descriptor (started env p reg (Some ss) fs) i
     = map_option normalize (find (\<lambda>service. dubboInterface service = i) (rev ss))"
proof (cases "find (\<lambda>p. dubboInterface (snd p) = i) (rev (enumerate 0 ss))")
  case None
  with find_rev_enumerate [of "\<lambda>service. dubboInterface service = i" ss]
  have "find (\<lambda>service. dubboInterface service = i) (rev ss) = None"
    by simp
  with None show ?thesis
    by (simp add: descriptor_def started_serviceMap lookup_registered)
next
  case (Some q)
  with find_rev_enumerate [of "\<lambda>service. dubboInterface service = i" ss]
  have k: "fst q < length ss" and s: "normalize (ss ! fst q) = normalize (snd q)"
    and f: "find (\<lambda>service. dubboInterface service = i) (rev ss) = Some (snd q)"
    by simp_all
  show ?thesis
    by (simp add: descriptor_def started_serviceMap lookup_registered Some started_services k s f)
qed

lemma started_descriptors:
  assumes "descriptor (started env p reg (Some ss) fs) i = Some service"
  shows "\<exists>s \<in> set ss. service = normalize s \<and> dubboInterface s = i"
proof -
  from assms obtain s where "find (\<lambda>service. dubboInterface service = i) (rev ss) = Some s"
    and "service = normalize s"
    by (auto simp: started_descriptor)
  then show ?thesis
    using find_Some_set [of "\<lambda>service. dubboInterface service = i" "rev ss" s] by auto
qed

lemma started_version:
  assumes "descriptor (started env p reg (Some ss) fs) i = Some service"
  shows "version service \<noteq> None"
  using started_descriptors [OF assms] by (auto simp: normalize_def)





lemma matchService_property:
  "matchService srv req = Some service \<Longrightarrow>
     \<exists>p. property service (methodName req) = Some p \<and> p \<noteq> NotCallable JUndefined"
  by (auto simp: matchService_def Let_def isUndefined_def split: option.splits if_splits)

lemma provider_descriptor:
  "descriptor (provider ss fs) i
     = map_option normalize (find (\<lambda>service. dubboInterface service = i) (rev ss))"
  by (simp add: provider_def started_descriptor)

lemma matchService_hello:
  "matchService (provider [fooBar] fs) (helloRequest None (Some ''0.0.0'')) = Some (normalize fooBar)"
  by (simp add: matchService_def provider_descriptor helloRequest_def fooBar_def normalize_def
      orElse_def property_def isUndefined_def)

lemma matchService_barWith:
  "matchService (provider [barWith m] fs) (helloRequest None (Some ''0.0.0''))
     = Some (normalize (barWith m))"
  by (simp add: matchService_def provider_descriptor helloRequest_def fooBar_def normalize_def
      orElse_def barWith_def property_def isUndefined_def)


lemma matchService_toString:
  "matchService (provider [fooBar] fs) toStringRequest = Some (normalize fooBar)"
  by (simp add: matchService_def provider_descriptor toStringRequest_def helloRequest_def
      fooBar_def normalize_def orElse_def property_def isUndefined_def ObjectPrototype_def)

subsection \<open>Provider URLs\<close>

lemma encodeURIComponent_append [simp]:
  "encodeURIComponent (xs @ ys) = encodeURIComponent xs @ encodeURIComponent ys"
  by (simp add: encodeURIComponent_def)

lemma encodeURIComponent_unescaped:
  "\<forall>c \<in> set s. unescaped c \<Longrightarrow> encodeURIComponent s = s"
  by (induction s) (simp_all add: encodeURIComponent_def)

lemma digit_unescaped: "unescaped (digit n)"
proof -
  have "n mod 10 = 0 \<or> n mod 10 = 1 \<or> n mod 10 = 2 \<or> n mod 10 = 3 \<or> n mod 10 = 4
        \<or> n mod 10 = 5 \<or> n mod 10 = 6 \<or> n mod 10 = 7 \<or> n mod 10 = 8 \<or> n mod 10 = 9"
    by arith
  then show ?thesis
    by (auto simp: digit_def unescaped_def)
qed

lemma string_of_nat_unescaped: "\<forall>c \<in> set (string_of_nat n). unescaped c"
  by (induction n rule: string_of_nat.induct)
     (subst string_of_nat.simps, simp add: digit_unescaped)

lemma qsEscape_string_of_nat [simp]: "qsEscape (string_of_nat n) = string_of_nat n"
  by (simp add: qsEscape_def encodeURIComponent_unescaped string_of_nat_unescaped)

lemma qsEscape_keys:
  "qsEscape ''group'' = ''group''" "qsEscape ''version'' = ''version''"
  "qsEscape ''method'' = ''method''" "qsEscape ''side'' = ''side''"
  "qsEscape ''provider'' = ''provider''" "qsEscape ''pid'' = ''pid''"
  "qsEscape ''generic'' = ''generic''" "qsEscape ''false'' = ''false''"
  "qsEscape ''protocal'' = ''protocal''" "qsEscape ''dubbo'' = ''dubbo''"
  "qsEscape ''dynamic'' = ''dynamic''" "qsEscape ''true'' = ''true''"
  "qsEscape ''category'' = ''category''" "qsEscape ''providers'' = ''providers''"
  "qsEscape ''anyhost'' = ''anyhost''" "qsEscape ''timestamp'' = ''timestamp''"
  by (simp_all add: qsEscape_def encodeURIComponent_def unescaped_def)

lemma buildUrl_normalize:
  "buildUrl env srv k (normalize service) =
     encodeURIComponent
       (''dubbo://'' @ ipAddr env @ '':'' @ string_of_nat (port srv) @ ''/''
        @ dubboInterface service
        @ ''?group='' @ qsEscape (orElse (group service) [])
        @ ''&version='' @ qsEscape (orElse (version service) ''0.0.0'')
        @ ''&method='' @ qsEscape (join '','' (map fst (methods service)))
        @ ''&side=provider''
        @ ''&pid='' @ string_of_nat (pid env)
        @ ''&generic=false''
        @ ''&protocal=dubbo''
        @ ''&dynamic=true''
        @ ''&category=providers''
        @ ''&anyhost=true''
        @ ''&timestamp='' @ string_of_nat (Date_now env k))"
  by (simp add: buildUrl_def stringify_def normalize_def optional_def qsEscape_keys
      del: encodeURIComponent_append)


lemma string_of_nat_examples:
  "string_of_nat 20880 = ''20880''" "string_of_nat 4711 = ''4711''"
  "string_of_nat 1600000000000 = ''1600000000000''"
  by (simp_all add: string_of_nat.simps digit_def)

subsection \<open>Running the chain\<close>

lemma entering_Nil [simp]: "entering i [] = []"
  by (simp add: entering_def)

lemma entering_Cons [simp]:
  "entering i (name # names) = StageCalled i # Before name # entering (Suc i) names"
  by (simp add: entering_def)

lemma onion_apply: "onion (name, pre, post) = around name pre post"
  by (simp add: onion_def)

lemma inward_Nil [simp]: "inward [] c = c"
  by (simp add: inward_def)

lemma inward_Cons [simp]: "inward ((name, pre, post) # specs) c = inward specs (pre c)"
  by (simp add: inward_def)

lemma outward_Nil [simp]: "outward [] c = c"
  by (simp add: outward_def)

lemma outward_Cons [simp]: "outward ((name, pre, post) # specs) c = post (outward specs c)"
  by (simp add: outward_def)

text \<open>
  A run of middlewares \<open>around\<close> in front of any rest of the chain: the rest is entered
  at its position, with the context as the parts before \<^verbatim>\<open>await next()\<close> left it; when
  the rest resolves, the parts behind \<^verbatim>\<open>await next()\<close> run on the context in reverse
  order; when it rejects, none of them runs.
\<close>

lemma dispatch_onions:
  assumes "index st = int i - 1"
  shows "dispatch i (map onion specs @ rest) st =
     (case dispatch (i + length specs) rest
             (st\<lparr>ctx := inward specs (ctx st), index := int (i + length specs) - 1,
                 trace := trace st @ entering i (map fst specs)\<rparr>) of
        (Resolved, st') \<Rightarrow>
          (Resolved, st'\<lparr>ctx := outward specs (ctx st'),
                         trace := trace st' @ map After (rev (map fst specs))\<rparr>)
      | (Rejected e, st') \<Rightarrow> (Rejected e, st'))"
  using assms
proof (induction specs arbitrary: i st)
  case Nil
  then have "st\<lparr>ctx := ctx st, index := int i - 1, trace := trace st\<rparr> = st"
    by simp
  then show ?case
    by (simp split: prod.splits outcome.splits)
next
  case (Cons spec specs)
  obtain name pre post where spec: "spec = (name, pre, post)"
    by (cases spec) auto
  let ?s1 = "st\<lparr>index := int i, trace := trace st @ [StageCalled i],
                 ctx := pre (ctx st), trace := (trace st @ [StageCalled i]) @ [Before name]\<rparr>"
  have idx: "index ?s1 = int (Suc i) - 1" by simp
  note IH = Cons.IH [OF idx, simplified]
  from Cons.prems have guard: "\<not> int i \<le> index st" by simp
  show ?case
    using guard
    by (simp add: spec onion_apply around_def IH split: prod.splits outcome.splits)
qed

lemma compose_onions:
  "compose (map onion specs @ rest) st =
     (case dispatch (length specs) rest
             (st\<lparr>ctx := inward specs (ctx st), index := int (length specs) - 1,
                 trace := trace st @ entering 0 (map fst specs)\<rparr>) of
        (Resolved, st') \<Rightarrow>
          (Resolved, st'\<lparr>ctx := outward specs (ctx st'),
                         trace := trace st' @ map After (rev (map fst specs))\<rparr>)
      | (Rejected e, st') \<Rightarrow> (Rejected e, st'))"
  using dispatch_onions [of "st\<lparr>index := - 1\<rparr>" 0 specs rest]
  by (simp add: compose_def)

lemma handleRequest_next:
  "handleRequest chk service req st next = handleRequest chk service req st next'"
  by (simp add: handleRequest_def)

lemma handleRequest_resolves [simp]: "fst (handleRequest chk service req st next) = Resolved"
  by (simp add: handleRequest_def Let_def
      split: option.splits Property.splits prod.splits completion.splits)

lemma handleRequest_trace:
  "trace (snd (handleRequest chk service req st next)) = trace st @ applied service req"
  by (simp add: handleRequest_def applied_def Let_def
      split: option.splits Property.splits prod.splits completion.splits)

lemma case_handleRequest:
  "(case handleRequest chk service req st next of
      (Resolved, st') \<Rightarrow> f st'
    | (Rejected e, st') \<Rightarrow> g e st')
   = f (snd (handleRequest chk service req st next))"
  using handleRequest_resolves [of chk service req st "next"]
  by (cases "handleRequest chk service req st next") simp

lemma compose_terminal:
  "compose [handleRequest chk service req] st
     = handleRequest chk service req (st\<lparr>index := 0, trace := trace st @ [StageCalled 0]\<rparr>) next"
  using handleRequest_next [of chk service req _ _ "next"]
  by (simp add: compose_def)


lemma compose_throwBefore:
  "fst (compose (throwBefore name e # rest) st) = Rejected e"
  by (simp add: compose_def throwBefore_def)


lemma dispatchRequest_trace:
  assumes "matchService srv req = Some service"
  shows "snd (dispatchRequest chk srv req)
           = trace (snd (compose (middlewares srv @ [handleRequest chk service req])
                           (atStart req service)))"
  using assms by (simp add: dispatchRequest_def split: prod.splits outcome.splits)

lemma dispatchRequest_rejected:
  assumes "matchService srv req = Some service"
    and "fst (compose (middlewares srv @ [handleRequest chk service req]) (atStart req service))
           = Rejected e"
  shows "status (fst (dispatchRequest chk srv req)) = Some SERVER_ERROR
         \<and> err (body (fst (dispatchRequest chk srv req))) = e"
  using assms
  by (cases "compose (middlewares srv @ [handleRequest chk service req]) (atStart req service)")
     (simp add: dispatchRequest_def)

lemma dispatchRequest_resolved:
  assumes "matchService srv req = Some service"
    and "compose (middlewares srv @ [handleRequest chk service req]) (atStart req service)
           = (Resolved, st)"
  shows "dispatchRequest chk srv req = (ctx st, trace st)"
  using assms by (simp add: dispatchRequest_def)

lemma dispatchRequest_alone:
  assumes "matchService srv req = Some service" and "middlewares srv = []"
  shows "dispatchRequest chk srv req
           = (ctx (snd (handleRequest chk service req
                          \<lparr>ctx = ResponseContext_new req, index = 0, trace = [StageCalled 0],
                           receiver = fieldsOf service\<rparr> next)),
              trace (snd (handleRequest chk service req
                          \<lparr>ctx = ResponseContext_new req, index = 0, trace = [StageCalled 0],
                           receiver = fieldsOf service\<rparr> next)))"
proof -
  let ?h = "handleRequest chk service req
              \<lparr>ctx = ResponseContext_new req, index = 0, trace = [StageCalled 0],
               receiver = fieldsOf service\<rparr> next"
  have "compose (middlewares srv @ [handleRequest chk service req]) (atStart req service) = ?h"
    by (simp add: assms(2) compose_terminal [of chk service req _ "next"] atStart_def)
  moreover have "fst ?h = Resolved"
    by simp
  ultimately have "compose (middlewares srv @ [handleRequest chk service req])
                     (atStart req service) = (Resolved, snd ?h)"
    by (metis prod.collapse)
  from dispatchRequest_resolved [OF assms(1) this] show ?thesis .
qed

text \<open>What the terminal stage leaves, by what \<^verbatim>\<open>methods[name]\<close> is and what it does.\<close>

lemma handleRequest_callable:
  assumes "property service (methodName req) = Some (Callable f)"
  shows "case f (argumentsOf req) (receiver st) ((ctx st)\<lparr>status := Some OK\<rparr>) of
          (r, r1, c1) \<Rightarrow>
            trace (snd (handleRequest chk service req st next))
                = trace st @ [MethodCalled (dubboInterface service) (methodName req)
                                (argumentsOf req)]
            \<and> receiver (snd (handleRequest chk service req st next)) = r1
            \<and> status (ctx (snd (handleRequest chk service req st next))) = status c1
            \<and> (status c1 = Some OK \<longrightarrow>
                 status (ctx (snd (handleRequest chk service req st next))) = Some OK)
            \<and> (case r of
                 Returned v \<Rightarrow>
                   res (body (ctx (snd (handleRequest chk service req st next)))) = v
                   \<and> err (body (ctx (snd (handleRequest chk service req st next))))
                       = (if chk v then JNull
                          else JError (path (attachment req) @ ''#'' @ methodName req
                                       @ '' return value not hessian type''))
               | Thrown e \<Rightarrow>
                   res (body (ctx (snd (handleRequest chk service req st next)))) = JNull
                   \<and> err (body (ctx (snd (handleRequest chk service req st next)))) = e)"
  by (simp add: handleRequest_def assms Let_def split: prod.splits completion.splits)


lemma handleRequest_notCallable:
  assumes "property service (methodName req) = Some (NotCallable v)"
  shows "handleRequest chk service req st next
           = (Resolved,
              st\<lparr>ctx := (ctx st)\<lparr>status := Some OK,
                   body := \<lparr>res = JNull, err = JTypeError ''method.apply is not a function''\<rparr>\<rparr>\<rparr>)"
  by (simp add: handleRequest_def assms Let_def)

subsection \<open>Code that never makes the status \<^verbatim>\<open>SERVER_ERROR\<close>\<close>

lemma dispatch_keepsStatus:
  assumes "\<forall>f \<in> set fs. keepsStatus f" and "status (ctx st) \<noteq> Some SERVER_ERROR"
  shows "status (ctx (snd (dispatch i fs st))) \<noteq> Some SERVER_ERROR"
  using assms
proof (induction fs arbitrary: i st)
  case Nil
  then show ?case by simp
next
  case (Cons f fs)
  show ?case
  proof (cases "int i \<le> index st")
    case True
    with Cons.prems show ?thesis by simp
  next
    case False
    from Cons.prems have f: "keepsStatus f" and fs: "\<forall>g \<in> set fs. keepsStatus g"
      by simp_all
    have n: "\<forall>st'. status (ctx st') \<noteq> Some SERVER_ERROR
               \<longrightarrow> status (ctx (snd (dispatch (Suc i) fs st'))) \<noteq> Some SERVER_ERROR"
      using Cons.IH [OF fs] by simp
    have s: "status (ctx (st\<lparr>index := int i, trace := trace st @ [StageCalled i]\<rparr>))
               \<noteq> Some SERVER_ERROR"
      using Cons.prems(2) by simp
    from f [unfolded keepsStatus_def, rule_format, OF conjI [OF s n]] False
    show ?thesis by simp
  qed
qed

lemma keepsStatus_handleRequest:
  assumes "\<forall>m. property service (methodName req) = Some (Callable m) \<longrightarrow> methodKeepsStatus m"
  shows "keepsStatus (handleRequest chk service req)"
proof (cases "property service (methodName req)")
  case None
  then show ?thesis
    by (simp add: keepsStatus_def handleRequest_def)
next
  case (Some p)
  show ?thesis
  proof (cases p)
    case (NotCallable v)
    with Some show ?thesis
      by (simp add: keepsStatus_def handleRequest_def)
  next
    case (Callable m)
    with Some assms have "methodKeepsStatus m" by simp
    then have k: "status (snd (snd (m argv r (c\<lparr>status := Some OK\<rparr>)))) \<noteq> Some SERVER_ERROR"
      for argv r c
      by (simp add: methodKeepsStatus_def)
    show ?thesis
      unfolding keepsStatus_def
    proof (intro allI impI)
      fix st :: ChainState and "next" :: Next
      from k [of "argumentsOf req" "receiver st" "ctx st"]
      show "status (ctx (snd (handleRequest chk service req st next))) \<noteq> Some SERVER_ERROR"
        by (cases "m (argumentsOf req) (receiver st) ((ctx st)\<lparr>status := Some OK\<rparr>)")
           (auto simp: handleRequest_def Some Callable Let_def split: completion.splits)
    qed
  qed
qed

lemma keepsStatus_around:
  assumes "\<forall>c. status c \<noteq> Some SERVER_ERROR \<longrightarrow> status (pre c) \<noteq> Some SERVER_ERROR"
    and "\<forall>c. status c \<noteq> Some SERVER_ERROR \<longrightarrow> status (post c) \<noteq> Some SERVER_ERROR"
  shows "keepsStatus (around name pre post)"
  unfolding keepsStatus_def
proof (intro allI impI)
  fix st :: ChainState and "next" :: Next
  assume a: "status (ctx st) \<noteq> Some SERVER_ERROR
        \<and> (\<forall>st'. status (ctx st') \<noteq> Some SERVER_ERROR
               \<longrightarrow> status (ctx (snd (next st'))) \<noteq> Some SERVER_ERROR)"
  let ?s1 = "st\<lparr>ctx := pre (ctx st), trace := trace st @ [Before name]\<rparr>"
  from a assms(1) have "status (ctx ?s1) \<noteq> Some SERVER_ERROR" by simp
  with a have "status (ctx (snd (next ?s1))) \<noteq> Some SERVER_ERROR" by blast
  with assms(2) show "status (ctx (snd (around name pre post st next))) \<noteq> Some SERVER_ERROR"
    by (cases "next ?s1") (auto simp: around_def split: outcome.splits)
qed

lemma methodKeepsStatus_hello: "methodKeepsStatus hello"
  by (simp add: methodKeepsStatus_def hello_def split: list.splits jsval.splits)

subsection \<open>The examples\<close>

lemma property_hello: "property fooBar ''hello'' = Some (Callable hello)"
  by (simp add: property_def fooBar_def)

lemma applied_hello:
  "applied (normalize fooBar) (helloRequest g v)
     = [MethodCalled ''com.foo.Bar'' ''hello'' [JStr ''world'', JContext]]"
  by (simp add: applied_def property_def fooBar_def helloRequest_def argumentsOf_def
      normalize_def)

lemma hello_world:
  "handleRequest javaTyped (normalize fooBar) (helloRequest None (Some ''0.0.0'')) st next
   = (Resolved,
      st\<lparr>ctx := (ctx st)\<lparr>status := Some OK, body := \<lparr>res = JStr ''hi world'', err = JNull\<rparr>\<rparr>,
         trace := trace st
           @ [MethodCalled ''com.foo.Bar'' ''hello'' [JStr ''world'', JContext]]\<rparr>)"
  by (simp add: handleRequest_def property_def fooBar_def hello_def normalize_def helloRequest_def
      argumentsOf_def javaTyped_def)

lemma hello_denied:
  "handleRequest javaTyped (normalize (barWith deny)) (helloRequest None (Some ''0.0.0'')) st next
   = (Resolved,
      st\<lparr>ctx := (ctx st)\<lparr>status := Some SERVER_ERROR,
                body := \<lparr>res = JNull, err = JError ''denied''\<rparr>\<rparr>,
         trace := trace st
           @ [MethodCalled ''com.foo.Bar'' ''hello'' [JStr ''world'', JContext]]\<rparr>)"
  by (simp add: handleRequest_def property_def barWith_def fooBar_def deny_def normalize_def
      helloRequest_def argumentsOf_def)



lemma inherited_toString:
  "handleRequest javaTyped (normalize fooBar) toStringRequest st next
   = (Resolved,
      st\<lparr>ctx := (ctx st)\<lparr>status := Some OK,
                body := \<lparr>res = JStr ''[object Object]'', err = JNull\<rparr>\<rparr>,
         trace := trace st
           @ [MethodCalled ''com.foo.Bar'' ''toString'' [JStr ''world'', JContext]]\<rparr>)"
  by (simp add: handleRequest_def property_def fooBar_def ObjectPrototype_def objectToString_def
      normalize_def toStringRequest_def helloRequest_def argumentsOf_def javaTyped_def)

lemma matchService_None:
  "matchService srv req = None \<longleftrightarrow>
     descriptor srv (path (attachment req)) = None
     \<or> (\<exists>service. descriptor srv (path (attachment req)) = Some service
          \<and> (isUndefined (property service (methodName req))
             \<or> group service
                 \<noteq> Some (case Attachment.group (attachment req) of None \<Rightarrow> [] | Some g \<Rightarrow> g)
             \<or> version service \<noteq> Attachment.version (attachment req)))"
  by (auto simp: matchService_def Let_def split: option.splits)

subsection \<open>The server after a request\<close>

lemma serviceMap_afterRequest [simp]: "serviceMap (afterRequest chk srv req) = serviceMap srv"
  by (simp add: afterRequest_def split: option.splits)

lemma middlewares_afterRequest [simp]: "middlewares (afterRequest chk srv req) = middlewares srv"
  by (simp add: afterRequest_def split: option.splits)

lemma length_services_afterRequest [simp]:
  "length (services (afterRequest chk srv req)) = length (services srv)"
  by (simp add: afterRequest_def split: option.splits)












lemma path_helloRequest [simp]: "path (attachment (helloRequest g v)) = ''com.foo.Bar''"
  by (simp add: helloRequest_def)





subsection \<open>Frames of a connection\<close>

lemma upt_0_Suc: "[0..<Suc n] = 0 # map Suc [0..<n]"
  by (simp add: upt_conv_Cons map_Suc_upt del: upt_Suc)

lemma dispatched_onData:
  "dispatched (onData codec srv conn frame)
     = dispatched conn @ (if isHeartBeat codec (snd frame) then [] else [snd frame])"
  by (cases frame) (simp add: onData_def Let_def)

lemma written_onData:
  "written (onData codec srv conn frame)
     = written conn
       @ (if isHeartBeat codec (snd frame) then []
          else [encode codec (fst (invokeComposeChainRequest codec srv (snd frame)))])"
  by (cases frame) (simp add: onData_def Let_def)

lemma dispatched_subscribe:
  "dispatched (subscribe codec srv conn frames)
     = dispatched conn @ filter (\<lambda>d. \<not> isHeartBeat codec d) (map snd frames)"
  by (induction frames arbitrary: srv conn) (simp_all add: dispatched_onData)

lemma written_subscribe:
  "written (subscribe codec srv conn frames)
     = written conn
       @ map (\<lambda>k. encode codec
                    (fst (invokeComposeChainRequest codec
                            (foldl (afterData codec) srv (take k frames)) (snd (frames ! k)))))
           (filter (\<lambda>k. \<not> isHeartBeat codec (snd (frames ! k))) [0..<length frames])"
proof (induction frames arbitrary: srv conn)
  case Nil
  show ?case by simp
next
  case (Cons frame frames)
  show ?case
    by (simp add: Cons.IH written_onData upt_0_Suc filter_map o_def del: upt_Suc)
qed

section \<open>The claims\<close>

text \<open>
  C1. The claim is that a request naming a method that the descriptor does not define
  gets the status \<^verbatim>\<open>SERVICE_NOT_FOUND\<close> and that neither a middleware nor a service method
  is invoked for it. The router tests \<^verbatim>\<open>typeof service.methods[methodName]\<close>, which also
  finds what the \<^verbatim>\<open>methods\<close> object inherits. The provider's descriptor defines only
  \<^verbatim>\<open>hello\<close>; a request for \<^verbatim>\<open>toString\<close> with the descriptor's group and version is
  matched, the registered middleware runs, the function inherited from
  \<^verbatim>\<open>Object.prototype\<close> is applied to the service, and the response has the status \<^verbatim>\<open>OK\<close>
  and the result \<^verbatim>\<open>"[object Object]"\<close>.
\<close>

theorem inherited_method_is_dispatched:
  "map fst (methods fooBar) = [''hello'']
   \<and> methodName toStringRequest = ''toString''
   \<and> matchService (provider [fooBar] [onion (''a'', id, id)]) toStringRequest
       = Some (normalize fooBar)
   \<and> dispatchRequest javaTyped (provider [fooBar] [onion (''a'', id, id)]) toStringRequest
       = (\<lparr>request = toStringRequest, status = Some OK,
           body = \<lparr>res = JStr ''[object Object]'', err = JNull\<rparr>\<rparr>,
          [StageCalled 0, Before ''a'', StageCalled 1,
           MethodCalled ''com.foo.Bar'' ''toString'' [JStr ''world'', JContext], After ''a''])"
proof -
  have "dispatchRequest javaTyped (provider [fooBar] [onion (''a'', id, id)]) toStringRequest
       = (\<lparr>request = toStringRequest, status = Some OK,
           body = \<lparr>res = JStr ''[object Object]'', err = JNull\<rparr>\<rparr>,
          [StageCalled 0, Before ''a'', StageCalled 1,
           MethodCalled ''com.foo.Bar'' ''toString'' [JStr ''world'', JContext], After ''a''])"
    by (simp add: dispatchRequest_def matchService_toString provider_middlewares compose_def
        onion_apply around_def inherited_toString atStart_def ResponseContext_new_def)
  moreover have "map fst (methods fooBar) = [''hello'']"
    by (simp add: fooBar_def)
  moreover have "methodName toStringRequest = ''toString''"
    by (simp add: toStringRequest_def)
  ultimately show ?thesis
    by (simp add: matchService_toString)
qed

theorem inherited_method_is_dispatched_witness:
  "status (fst (dispatchRequest javaTyped (provider [fooBar] [onion (''a'', id, id)])
                  toStringRequest)) = Some OK
   \<and> snd (dispatchRequest javaTyped (provider [fooBar] [onion (''a'', id, id)]) toStringRequest)
       \<noteq> []"
  using inherited_method_is_dispatched by simp

text \<open>
  C2 (as amended). For a request that matches a descriptor, the terminal stage sets the
  status to \<^verbatim>\<open>OK\<close>, applies the function that \<^verbatim>\<open>methods[name]\<close> yields once, to the
  request's arguments followed by the context and with the service as receiver, and
  always resolves. When the function returns a value that passes the check, \<^verbatim>\<open>body.res\<close>
  is that value and \<^verbatim>\<open>body.err\<close> is \<^verbatim>\<open>null\<close>; when it returns a value that fails the
  check, \<^verbatim>\<open>body.err\<close> is the error about the return value; when it throws, \<^verbatim>\<open>body.err\<close>
  is the thrown value and \<^verbatim>\<open>body.res\<close> is \<^verbatim>\<open>null\<close>. The stage does not assign the status
  again: the status is the one the function left in the context it was given, \<^verbatim>\<open>OK\<close> when
  it did not assign it. When \<^verbatim>\<open>methods[name]\<close> is not a function, nothing is applied and
  \<^verbatim>\<open>body.err\<close> is the \<^verbatim>\<open>TypeError\<close> of the call, with the status \<^verbatim>\<open>OK\<close>. With no
  middleware registered this is the result of the dispatch.
\<close>

theorem terminal_stage:
  assumes "matchService srv req = Some service"
  shows "\<exists>p. property service (methodName req) = Some p
     \<and> argumentsOf req = (case args req of None \<Rightarrow> [] | Some as \<Rightarrow> as) @ [JContext]
     \<and> fst (handleRequest chk service req st next) = Resolved
     \<and> (case p of
          Callable method \<Rightarrow>
            (case method (argumentsOf req) (receiver st) ((ctx st)\<lparr>status := Some OK\<rparr>) of
               (r, r1, c1) \<Rightarrow>
                 trace (snd (handleRequest chk service req st next))
                     = trace st @ [MethodCalled (dubboInterface service) (methodName req)
                                     (argumentsOf req)]
                 \<and> receiver (snd (handleRequest chk service req st next)) = r1
                 \<and> status (ctx (snd (handleRequest chk service req st next))) = status c1
                 \<and> (status c1 = Some OK \<longrightarrow>
                      status (ctx (snd (handleRequest chk service req st next))) = Some OK)
                 \<and> (case r of
                      Returned v \<Rightarrow>
                        res (body (ctx (snd (handleRequest chk service req st next)))) = v
                        \<and> err (body (ctx (snd (handleRequest chk service req st next))))
                            = (if chk v then JNull
                               else JError (path (attachment req) @ ''#'' @ methodName req
                                            @ '' return value not hessian type''))
                    | Thrown e \<Rightarrow>
                        res (body (ctx (snd (handleRequest chk service req st next)))) = JNull
                        \<and> err (body (ctx (snd (handleRequest chk service req st next)))) = e))
        | NotCallable v \<Rightarrow>
            trace (snd (handleRequest chk service req st next)) = trace st
            \<and> receiver (snd (handleRequest chk service req st next)) = receiver st
            \<and> status (ctx (snd (handleRequest chk service req st next))) = Some OK
            \<and> res (body (ctx (snd (handleRequest chk service req st next)))) = JNull
            \<and> err (body (ctx (snd (handleRequest chk service req st next))))
                = JTypeError ''method.apply is not a function'')
     \<and> (middlewares srv = [] \<longrightarrow>
          dispatchRequest chk srv req
            = (ctx (snd (handleRequest chk service req
                           \<lparr>ctx = ResponseContext_new req, index = 0, trace = [StageCalled 0],
                            receiver = fieldsOf service\<rparr> next)),
               trace (snd (handleRequest chk service req
                           \<lparr>ctx = ResponseContext_new req, index = 0, trace = [StageCalled 0],
                            receiver = fieldsOf service\<rparr> next))))"
proof -
  from matchService_property [OF assms]
  obtain p where m: "property service (methodName req) = Some p" by blast
  have stage: "case p of
          Callable f \<Rightarrow>
            (case f (argumentsOf req) (receiver st) ((ctx st)\<lparr>status := Some OK\<rparr>) of
               (r, r1, c1) \<Rightarrow>
                 trace (snd (handleRequest chk service req st next))
                     = trace st @ [MethodCalled (dubboInterface service) (methodName req)
                                     (argumentsOf req)]
                 \<and> receiver (snd (handleRequest chk service req st next)) = r1
                 \<and> status (ctx (snd (handleRequest chk service req st next))) = status c1
                 \<and> (status c1 = Some OK \<longrightarrow>
                      status (ctx (snd (handleRequest chk service req st next))) = Some OK)
                 \<and> (case r of
                      Returned v \<Rightarrow>
                        res (body (ctx (snd (handleRequest chk service req st next)))) = v
                        \<and> err (body (ctx (snd (handleRequest chk service req st next))))
                            = (if chk v then JNull
                               else JError (path (attachment req) @ ''#'' @ methodName req
                                            @ '' return value not hessian type''))
                    | Thrown e \<Rightarrow>
                        res (body (ctx (snd (handleRequest chk service req st next)))) = JNull
                        \<and> err (body (ctx (snd (handleRequest chk service req st next)))) = e))
        | NotCallable v \<Rightarrow>
            trace (snd (handleRequest chk service req st next)) = trace st
            \<and> receiver (snd (handleRequest chk service req st next)) = receiver st
            \<and> status (ctx (snd (handleRequest chk service req st next))) = Some OK
            \<and> res (body (ctx (snd (handleRequest chk service req st next)))) = JNull
            \<and> err (body (ctx (snd (handleRequest chk service req st next))))
                = JTypeError ''method.apply is not a function''"
  proof (cases p)
    case (Callable f)
    with m have mf: "property service (methodName req) = Some (Callable f)"
      by simp
    from handleRequest_callable [OF mf, where st = st and chk = chk and ?next = "next"] Callable
    show ?thesis
      by simp
  next
    case (NotCallable v)
    with m have mv: "property service (methodName req) = Some (NotCallable v)"
      by simp
    from handleRequest_notCallable [OF mv, where st = st and chk = chk and ?next = "next"]
      NotCallable
    show ?thesis
      by simp
  qed
  have alone: "middlewares srv = [] \<longrightarrow>
          dispatchRequest chk srv req
            = (ctx (snd (handleRequest chk service req
                           \<lparr>ctx = ResponseContext_new req, index = 0, trace = [StageCalled 0],
                            receiver = fieldsOf service\<rparr> next)),
               trace (snd (handleRequest chk service req
                           \<lparr>ctx = ResponseContext_new req, index = 0, trace = [StageCalled 0],
                            receiver = fieldsOf service\<rparr> next)))"
    using dispatchRequest_alone [OF assms] by blast
  have argv: "argumentsOf req = (case args req of None \<Rightarrow> [] | Some as \<Rightarrow> as) @ [JContext]"
    by (simp add: argumentsOf_def)
  have resolves: "fst (handleRequest chk service req st next) = Resolved"
    by simp
  note all = conjI [OF m conjI [OF argv conjI [OF resolves conjI [OF stage alone]]]]
  show ?thesis
    by (rule exI [of _ p]) (rule all)
qed

theorem terminal_stage_witness:
  "dispatchRequest javaTyped (provider [fooBar] []) (helloRequest None (Some ''0.0.0''))
     = (\<lparr>request = helloRequest None (Some ''0.0.0''), status = Some OK,
         body = \<lparr>res = JStr ''hi world'', err = JNull\<rparr>\<rparr>,
        [StageCalled 0, MethodCalled ''com.foo.Bar'' ''hello'' [JStr ''world'', JContext]])"
  using terminal_stage [OF matchService_hello [of "[]"], where
      st = "\<lparr>ctx = ResponseContext_new (helloRequest None (Some ''0.0.0'')), index = 0,
        trace = [StageCalled 0], receiver = fieldsOf (normalize fooBar)\<rparr>"
      and chk = javaTyped and ?next = "\<lambda>st. (Resolved, st)"]
  by (clarsimp simp: provider_middlewares hello_world ResponseContext_new_def)

text \<open>
  C2 as stated does not hold: a method that assigns \<^verbatim>\<open>SERVER_ERROR\<close> to the status of the
  context it receives and then throws is matched and applied, its error is captured in
  \<^verbatim>\<open>body.err\<close>, and the final status is \<^verbatim>\<open>SERVER_ERROR\<close>.
\<close>

theorem terminal_stage_status_counterexample:
  "matchService (provider [barWith deny] []) (helloRequest None (Some ''0.0.0''))
     = Some (normalize (barWith deny))
   \<and> middlewares (provider [barWith deny] []) = []
   \<and> dispatchRequest javaTyped (provider [barWith deny] []) (helloRequest None (Some ''0.0.0''))
     = (\<lparr>request = helloRequest None (Some ''0.0.0''), status = Some SERVER_ERROR,
         body = \<lparr>res = JNull, err = JError ''denied''\<rparr>\<rparr>,
        [StageCalled 0, MethodCalled ''com.foo.Bar'' ''hello'' [JStr ''world'', JContext]])"
  using dispatchRequest_alone [OF matchService_barWith [of deny "[]"] provider_middlewares,
      where chk = javaTyped and ?next = "\<lambda>st. (Resolved, st)"]
  by (simp add: matchService_barWith provider_middlewares hello_denied ResponseContext_new_def)

text \<open>
  C3 (as amended). For a matched request, when an exception escapes the composed chain
  the result has the status \<^verbatim>\<open>SERVER_ERROR\<close> and the thrown value in \<^verbatim>\<open>body.err\<close>. When
  the middleware that throws does so before \<^verbatim>\<open>next()\<close>, no later stage is entered and no
  method is applied; when it throws after \<^verbatim>\<open>next()\<close>, the later stages have run and the
  code after \<^verbatim>\<open>next()\<close> of the middlewares registered before it does not run. This is the
  only place where the dispatcher assigns \<^verbatim>\<open>SERVER_ERROR\<close>: when no registered middleware
  and no function applied by the terminal stage makes the status \<^verbatim>\<open>SERVER_ERROR\<close>
  itself, the result has that status exactly when an exception escaped the chain.
\<close>

theorem escaping_exception:
  assumes "matchService srv req = Some service"
  shows "(fst (compose (middlewares srv @ [handleRequest chk service req])
                 (atStart req service)) = Rejected e \<longrightarrow>
            status (fst (dispatchRequest chk srv req)) = Some SERVER_ERROR
            \<and> err (body (fst (dispatchRequest chk srv req))) = e)
         \<and> (middlewares srv = map onion specs @ throwBefore name e # rest \<longrightarrow>
            status (fst (dispatchRequest chk srv req)) = Some SERVER_ERROR
            \<and> err (body (fst (dispatchRequest chk srv req))) = e
            \<and> snd (dispatchRequest chk srv req)
                = entering 0 (map fst specs) @ [StageCalled (length specs), Before name])
         \<and> (middlewares srv = map onion specs @ throwAfter name e # map onion specs' \<longrightarrow>
            status (fst (dispatchRequest chk srv req)) = Some SERVER_ERROR
            \<and> err (body (fst (dispatchRequest chk srv req))) = e
            \<and> snd (dispatchRequest chk srv req)
                = entering 0 (map fst specs) @ [StageCalled (length specs), Before name]
                  @ entering (Suc (length specs)) (map fst specs')
                  @ [StageCalled (Suc (length specs + length specs'))]
                  @ applied service req
                  @ map After (rev (map fst specs')))
         \<and> ((\<forall>f \<in> set (middlewares srv). keepsStatus f)
             \<and> (\<forall>m. property service (methodName req) = Some (Callable m)
                    \<longrightarrow> methodKeepsStatus m) \<longrightarrow>
            (status (fst (dispatchRequest chk srv req)) = Some SERVER_ERROR
             \<longleftrightarrow> (\<exists>e'. fst (compose (middlewares srv @ [handleRequest chk service req])
                                (atStart req service)) = Rejected e')))"
proof (intro conjI impI)
  assume "fst (compose (middlewares srv @ [handleRequest chk service req])
                 (atStart req service)) = Rejected e"
  from dispatchRequest_rejected [OF assms this]
  show "status (fst (dispatchRequest chk srv req)) = Some SERVER_ERROR"
    and "err (body (fst (dispatchRequest chk srv req))) = e"
    by simp_all
next
  assume mw: "middlewares srv = map onion specs @ throwBefore name e # rest"
  have c: "fst (compose (middlewares srv @ [handleRequest chk service req])
                 (atStart req service)) = Rejected e
           \<and> trace (snd (compose (middlewares srv @ [handleRequest chk service req])
                 (atStart req service)))
               = entering 0 (map fst specs) @ [StageCalled (length specs), Before name]"
    by (simp add: mw compose_onions throwBefore_def atStart_def)
  from dispatchRequest_rejected [OF assms conjunct1 [OF c]]
  show "status (fst (dispatchRequest chk srv req)) = Some SERVER_ERROR"
    and "err (body (fst (dispatchRequest chk srv req))) = e"
    by simp_all
  from c show "snd (dispatchRequest chk srv req)
                = entering 0 (map fst specs) @ [StageCalled (length specs), Before name]"
    by (simp add: dispatchRequest_trace [OF assms])
next
  assume mw: "middlewares srv = map onion specs @ throwAfter name e # map onion specs'"
  have c: "fst (compose (middlewares srv @ [handleRequest chk service req])
                 (atStart req service)) = Rejected e
           \<and> trace (snd (compose (middlewares srv @ [handleRequest chk service req])
                 (atStart req service)))
               = entering 0 (map fst specs) @ [StageCalled (length specs), Before name]
                  @ entering (Suc (length specs)) (map fst specs')
                  @ [StageCalled (Suc (length specs + length specs'))]
                  @ applied service req
                  @ map After (rev (map fst specs'))"
    by (simp add: mw compose_onions throwAfter_def dispatch_onions case_handleRequest
        handleRequest_trace atStart_def)
  from dispatchRequest_rejected [OF assms conjunct1 [OF c]]
  show "status (fst (dispatchRequest chk srv req)) = Some SERVER_ERROR"
    and "err (body (fst (dispatchRequest chk srv req))) = e"
    by simp_all
  from c show "snd (dispatchRequest chk srv req)
                = entering 0 (map fst specs) @ [StageCalled (length specs), Before name]
                  @ entering (Suc (length specs)) (map fst specs')
                  @ [StageCalled (Suc (length specs + length specs'))]
                  @ applied service req
                  @ map After (rev (map fst specs'))"
    by (simp add: dispatchRequest_trace [OF assms])
next
  assume calm: "(\<forall>f \<in> set (middlewares srv). keepsStatus f)
             \<and> (\<forall>m. property service (methodName req) = Some (Callable m)
                    \<longrightarrow> methodKeepsStatus m)"
  let ?c = "compose (middlewares srv @ [handleRequest chk service req]) (atStart req service)"
  from calm have all: "\<forall>f \<in> set (middlewares srv @ [handleRequest chk service req]). keepsStatus f"
    using keepsStatus_handleRequest [of service req chk] by simp
  have init: "status (ctx ((atStart req service)\<lparr>index := - 1\<rparr>)) \<noteq> Some SERVER_ERROR"
    by (simp add: atStart_def ResponseContext_new_def)
  from dispatch_keepsStatus [OF all init, of 0]
  have kept: "status (ctx (snd ?c)) \<noteq> Some SERVER_ERROR"
    by (simp add: compose_def)
  show "status (fst (dispatchRequest chk srv req)) = Some SERVER_ERROR
             \<longleftrightarrow> (\<exists>e'. fst ?c = Rejected e')"
  proof (cases ?c)
    case (Pair out st)
    with kept assms show ?thesis
      by (cases out) (simp_all add: dispatchRequest_def)
  qed
qed

theorem escaping_exception_witness:
  "fst (compose (middlewares (provider [fooBar] [throwBefore ''faulty'' (JError ''boom'')])
                 @ [handleRequest javaTyped (normalize fooBar) (helloRequest None (Some ''0.0.0''))])
          (atStart (helloRequest None (Some ''0.0.0'')) (normalize fooBar)))
     = Rejected (JError ''boom'')
   \<and> status (fst (dispatchRequest javaTyped
          (provider [fooBar] [throwBefore ''faulty'' (JError ''boom'')])
          (helloRequest None (Some ''0.0.0'')))) = Some SERVER_ERROR
   \<and> err (body (fst (dispatchRequest javaTyped
          (provider [fooBar] [throwBefore ''faulty'' (JError ''boom'')])
          (helloRequest None (Some ''0.0.0''))))) = JError ''boom''
   \<and> snd (dispatchRequest javaTyped
          (provider [fooBar] [onion (''a'', id, id), throwBefore ''faulty'' (JError ''boom''),
                              onion (''b'', id, id)])
          (helloRequest None (Some ''0.0.0'')))
       = [StageCalled 0, Before ''a'', StageCalled 1, Before ''faulty'']
   \<and> status (fst (dispatchRequest javaTyped
          (provider [fooBar] [throwAfter ''faulty'' (JError ''boom''), onion (''b'', id, id)])
          (helloRequest None (Some ''0.0.0'')))) = Some SERVER_ERROR
   \<and> snd (dispatchRequest javaTyped
          (provider [fooBar] [throwAfter ''faulty'' (JError ''boom''), onion (''b'', id, id)])
          (helloRequest None (Some ''0.0.0'')))
       = [StageCalled 0, Before ''faulty'', StageCalled 1, Before ''b'', StageCalled 2,
          MethodCalled ''com.foo.Bar'' ''hello'' [JStr ''world'', JContext], After ''b'']
   \<and> fst (compose (middlewares (provider [fooBar] [onion (''a'', id, id)])
                 @ [handleRequest javaTyped (normalize fooBar) (helloRequest None (Some ''0.0.0''))])
          (atStart (helloRequest None (Some ''0.0.0'')) (normalize fooBar))) = Resolved
   \<and> status (fst (dispatchRequest javaTyped (provider [fooBar] [onion (''a'', id, id)])
                     (helloRequest None (Some ''0.0.0'')))) \<noteq> Some SERVER_ERROR"
proof -
  let ?R = "helloRequest None (Some ''0.0.0'')"
  let ?e = "JError ''boom''"
  let ?P = "provider [fooBar] [throwBefore ''faulty'' ?e]"
  let ?Q = "provider [fooBar] [onion (''a'', id, id)]"
  have r: "fst (compose (middlewares ?P @ [handleRequest javaTyped (normalize fooBar) ?R])
                  (atStart ?R (normalize fooBar))) = Rejected ?e"
    by (simp add: provider_middlewares compose_throwBefore)
  note escaped = escaping_exception [OF matchService_hello, where chk = javaTyped and e = ?e,
      THEN conjunct1, rule_format, OF r]
  note before = escaping_exception [OF matchService_hello
        [of "[onion (''a'', id, id), throwBefore ''faulty'' ?e, onion (''b'', id, id)]"],
      where specs = "[(''a'', id, id)]" and name = "''faulty''" and e = ?e
        and rest = "[onion (''b'', id, id)]" and chk = javaTyped,
      THEN conjunct2, THEN conjunct1]
  note after = escaping_exception [OF matchService_hello
        [of "[throwAfter ''faulty'' ?e, onion (''b'', id, id)]"],
      where specs = "[]" and name = "''faulty''" and e = ?e
        and specs' = "[(''b'', id, id)]" and chk = javaTyped,
      THEN conjunct2, THEN conjunct2, THEN conjunct1]
  have k1: "\<forall>f \<in> set (middlewares ?Q). keepsStatus f"
    by (simp add: provider_middlewares onion_apply keepsStatus_around)
  have k2: "\<forall>m. property (normalize fooBar) (methodName ?R) = Some (Callable m)
              \<longrightarrow> methodKeepsStatus m"
    using methodKeepsStatus_hello by (simp add: helloRequest_def property_hello)
  note only = escaping_exception [OF matchService_hello [of "[onion (''a'', id, id)]"],
      where chk = javaTyped,
      THEN conjunct2, THEN conjunct2, THEN conjunct2, rule_format, OF conjI [OF k1 k2]]
  have resolved: "fst (compose (middlewares ?Q @ [handleRequest javaTyped (normalize fooBar) ?R])
                  (atStart ?R (normalize fooBar))) = Resolved"
    by (simp add: provider_middlewares compose_def onion_apply around_def hello_world atStart_def)
  with only have kept: "status (fst (dispatchRequest javaTyped ?Q ?R)) \<noteq> Some SERVER_ERROR"
    by simp
  from r escaped before after resolved kept show ?thesis
    by (simp add: provider_middlewares applied_hello)
qed

text \<open>
  C3 as stated does not hold: with a middleware that assigns \<^verbatim>\<open>SERVER_ERROR\<close> to the
  status after \<^verbatim>\<open>await next()\<close>, the chain resolves, no exception escapes, and the result
  has the status \<^verbatim>\<open>SERVER_ERROR\<close>.
\<close>

theorem server_error_without_exception_counterexample:
  "fst (compose (middlewares (provider [fooBar] [audit])
                 @ [handleRequest javaTyped (normalize fooBar) (helloRequest None (Some ''0.0.0''))])
          (atStart (helloRequest None (Some ''0.0.0'')) (normalize fooBar))) = Resolved
   \<and> status (fst (dispatchRequest javaTyped (provider [fooBar] [audit])
                     (helloRequest None (Some ''0.0.0'')))) = Some SERVER_ERROR"
  by (simp add: dispatchRequest_def matchService_hello provider_middlewares compose_def audit_def
      around_def hello_world atStart_def)




text \<open>
  C5. For a matched request the chain is the registered middlewares, in the order of
  their registration, followed by the terminal stage. With middlewares of the shape
  \<open>around\<close>, the code before \<^verbatim>\<open>next()\<close> runs in registration order, then the terminal
  stage is entered and applies the method, then the code after \<^verbatim>\<open>next()\<close> runs in reverse
  order. When a middleware that never calls \<^verbatim>\<open>next()\<close> follows them, neither the terminal
  stage nor any later middleware is entered, and the code after \<^verbatim>\<open>next()\<close> of the earlier
  ones still runs in reverse order. (What the terminal stage records is the application
  of the method to the arguments of the request followed by the context, for every
  method that the descriptor defines.)
\<close>

theorem onion_order:
  assumes "matchService srv req = Some service"
  shows "(middlewares srv = map onion specs \<longrightarrow>
            snd (dispatchRequest chk srv req)
              = entering 0 (map fst specs)
                @ [StageCalled (length specs)]
                @ applied service req
                @ map After (rev (map fst specs)))
         \<and> (middlewares srv = map onion specs @ withoutNext name pre # rest \<longrightarrow>
            snd (dispatchRequest chk srv req)
              = entering 0 (map fst specs) @ [StageCalled (length specs), Before name]
                @ map After (rev (map fst specs)))
         \<and> (map_of (methods service) (methodName req) \<noteq> None \<longrightarrow>
            applied service req
              = [MethodCalled (dubboInterface service) (methodName req) (argumentsOf req)])"
proof (intro conjI impI)
  assume "middlewares srv = map onion specs"
  then show "snd (dispatchRequest chk srv req)
              = entering 0 (map fst specs)
                @ [StageCalled (length specs)]
                @ applied service req
                @ map After (rev (map fst specs))"
    by (simp add: dispatchRequest_trace [OF assms] compose_onions case_handleRequest
        handleRequest_trace atStart_def)
next
  assume "middlewares srv = map onion specs @ withoutNext name pre # rest"
  then show "snd (dispatchRequest chk srv req)
              = entering 0 (map fst specs) @ [StageCalled (length specs), Before name]
                @ map After (rev (map fst specs))"
    by (simp add: dispatchRequest_trace [OF assms] compose_onions withoutNext_def atStart_def)
next
  assume "map_of (methods service) (methodName req) \<noteq> None"
  then show "applied service req
              = [MethodCalled (dubboInterface service) (methodName req) (argumentsOf req)]"
    by (auto simp: applied_def property_def)
qed

theorem onion_order_witness:
  "snd (dispatchRequest (\<lambda>v. True)
          (provider [fooBar] [onion (''a'', id, id), onion (''b'', id, id)])
          (helloRequest None (Some ''0.0.0'')))
     = [StageCalled 0, Before ''a'', StageCalled 1, Before ''b'', StageCalled 2,
        MethodCalled ''com.foo.Bar'' ''hello'' [JStr ''world'', JContext],
        After ''b'', After ''a'']
   \<and> snd (dispatchRequest (\<lambda>v. True)
          (provider [fooBar] [onion (''a'', id, id), withoutNext ''gate'' id, onion (''b'', id, id)])
          (helloRequest None (Some ''0.0.0'')))
     = [StageCalled 0, Before ''a'', StageCalled 1, Before ''gate'', After ''a'']"
proof -
  let ?R = "helloRequest None (Some ''0.0.0'')"
  have own: "map_of (methods (normalize fooBar)) (methodName ?R) \<noteq> None"
    by (simp add: fooBar_def helloRequest_def)
  have mw: "middlewares (provider [fooBar] [onion (''a'', id, id), onion (''b'', id, id)])
              = map onion [(''a'', id, id), (''b'', id, id)]"
    by (simp add: provider_middlewares)
  have gw: "middlewares (provider [fooBar]
                [onion (''a'', id, id), withoutNext ''gate'' id, onion (''b'', id, id)])
              = map onion [(''a'', id, id)] @ withoutNext ''gate'' id # [onion (''b'', id, id)]"
    by (simp add: provider_middlewares)
  note inner = onion_order [OF matchService_hello, where chk = "\<lambda>v. True",
      THEN conjunct1, rule_format, OF mw]
  note gate = onion_order [OF matchService_hello, where chk = "\<lambda>v. True",
      THEN conjunct2, THEN conjunct1, rule_format, OF gw]
  note recorded = onion_order [OF matchService_hello [of "[]"], where chk = "\<lambda>v. True",
      THEN conjunct2, THEN conjunct2, rule_format, OF own]
  have call: "applied (normalize fooBar) ?R
                = [MethodCalled ''com.foo.Bar'' ''hello'' [JStr ''world'', JContext]]"
    using recorded by (simp add: fooBar_def helloRequest_def argumentsOf_def)
  from inner gate show ?thesis
    by (simp add: call)
qed




text \<open>
  C7. \<^verbatim>\<open>use\<close> with an argument that is not a function throws a \<^verbatim>\<open>TypeError\<close> and
  leaves the list of middlewares as it was; with a function it appends the function at
  the end of the list.
\<close>

theorem use_appends_functions_only:
  "use (NotFunction v) srv = (Some (JTypeError ''middleware must be a function''), srv)
   \<and> middlewares (snd (use (NotFunction v) srv)) = middlewares srv
   \<and> fst (use (Function f) srv) = None
   \<and> middlewares (snd (use (Function f) srv)) = middlewares srv @ [f]"
  by (simp add: use_def)

text \<open>
  C8. When the listener is bound, every service of the server is published: the registry
  transport receives one call, of type \<^verbatim>\<open>provider\<close>, with one pair of interface and URL
  per service, in order. The URL is the percent-encoding of
  \<^verbatim>\<open>dubbo://host:port/interface?\<close> followed by the query string with the normalized
  group and version, the method names joined by commas, \<^verbatim>\<open>side=provider\<close>, the process
  id, \<^verbatim>\<open>generic=false\<close>, the protocol identifier (under the key the source spells
  \<^verbatim>\<open>protocal\<close>), \<^verbatim>\<open>dynamic=true\<close>, \<^verbatim>\<open>category=providers\<close>, \<^verbatim>\<open>anyhost=true\<close> and the
  timestamp.
\<close>

theorem provider_urls_published:
  "snd (listening env p srv) =
     Publish ''provider''
       (map (\<lambda>(k, service).
               (dubboInterface service,
                encodeURIComponent
                  (''dubbo://'' @ ipAddr env @ '':'' @ string_of_nat p @ ''/''
                   @ dubboInterface service
                   @ ''?group='' @ qsEscape (orElse (group service) [])
                   @ ''&version='' @ qsEscape (orElse (version service) ''0.0.0'')
                   @ ''&method='' @ qsEscape (join '','' (map fst (methods service)))
                   @ ''&side=provider''
                   @ ''&pid='' @ string_of_nat (pid env)
                   @ ''&generic=false''
                   @ ''&protocal=dubbo''
                   @ ''&dynamic=true''
                   @ ''&category=providers''
                   @ ''&anyhost=true''
                   @ ''&timestamp='' @ string_of_nat (Date_now env k))))
          (enumerate 0 (services srv)))"
  using registerEach_pairs [of env "srv\<lparr>port := p\<rparr>" 0 "services srv" "serviceMap srv"]
  by (simp add: listening_def registerServices_def split_beta buildUrl_normalize
      del: encodeURIComponent_append)

theorem provider_urls_published_witness:
  "snd (listening localhost 20880 (DubboServer_from ''localhost:2181'' (Some [fooBar]))) =
     Publish ''provider''
       [(''com.foo.Bar'',
         ''dubbo%3A%2F%2F192.168.0.7%3A20880%2Fcom.foo.Bar%3Fgroup%3D%26version%3D0.0.0%26method%3Dhello%26side%3Dprovider%26pid%3D4711%26generic%3Dfalse%26protocal%3Ddubbo%26dynamic%3Dtrue%26category%3Dproviders%26anyhost%3Dtrue%26timestamp%3D1600000000000'')]"
  using provider_urls_published [of localhost 20880 "DubboServer_from ''localhost:2181'' (Some [fooBar])"]
  by (simp add: DubboServer_from_def fooBar_def localhost_def orElse_def string_of_nat_examples
      qsEscape_def encodeURIComponent_def unescaped_def percentEncode_def hexDigit_def
      del: encodeURIComponent_append)

text \<open>
  C9. A frame recognized as a heartbeat is not passed to the dispatcher, nothing is
  written to the socket for it, the session records the heartbeat activity at that
  time, and the server is left as it is. Every other frame is dispatched and answered
  with the encoded context: over a sequence of frames, the frames dispatched are those
  that are not heartbeats, in order, and the responses written are, in order, those of
  the frames that are not heartbeats, each the encoding of the result of its dispatch on
  the server as the frames before it left it.
\<close>

theorem heartbeat_frames_not_dispatched:
  "(isHeartBeat codec data \<longrightarrow>
      dispatched (onData codec srv conn (now, data)) = dispatched conn
      \<and> written (onData codec srv conn (now, data)) = written conn
      \<and> lastActivityTimestamp (heartbeat (onData codec srv conn (now, data))) = now
      \<and> afterData codec srv (now, data) = srv)
   \<and> (\<not> isHeartBeat codec data \<longrightarrow>
      dispatched (onData codec srv conn (now, data)) = dispatched conn @ [data]
      \<and> written (onData codec srv conn (now, data))
          = written conn @ [encode codec (fst (invokeComposeChainRequest codec srv data))])
   \<and> dispatched (subscribe codec srv conn frames)
       = dispatched conn @ filter (\<lambda>d. \<not> isHeartBeat codec d) (map snd frames)
   \<and> written (subscribe codec srv conn frames)
       = written conn
         @ map (\<lambda>k. encode codec
                      (fst (invokeComposeChainRequest codec
                              (foldl (afterData codec) srv (take k frames)) (snd (frames ! k)))))
             (filter (\<lambda>k. \<not> isHeartBeat codec (snd (frames ! k))) [0..<length frames])"
  using dispatched_subscribe [of codec srv conn frames] written_subscribe [of codec srv conn frames]
  by (simp add: onData_def afterData_def emit_def Let_def)

theorem heartbeat_frames_not_dispatched_witness:
  "dispatched (onData wire (provider [fooBar] []) accepted (7, ping)) = []
   \<and> written (onData wire (provider [fooBar] []) accepted (7, ping)) = []
   \<and> lastActivityTimestamp (heartbeat (onData wire (provider [fooBar] []) accepted (7, ping))) = 7
   \<and> dispatched (subscribe wire (provider [fooBar] []) accepted
        [(1, ping), (2, [1, 2, 3]), (3, ping)]) = [[1, 2, 3]]
   \<and> written (subscribe wire (provider [fooBar] []) accepted
        [(1, ping), (2, [1, 2, 3]), (3, ping)])
       = [statusByte (fst (invokeComposeChainRequest wire (provider [fooBar] []) [1, 2, 3]))]"
proof -
  let ?P = "provider [fooBar] []"
  let ?frames = "[(1, ping), (2, [1, 2, 3]), (3, ping)] :: (nat \<times> Buffer) list"
  have hb: "isHeartBeat wire ping" and nhb: "\<not> isHeartBeat wire [1, 2, 3]"
    by (simp_all add: wire_def ping_def)
  note one = heartbeat_frames_not_dispatched [where codec = wire and data = ping and srv = ?P
      and conn = accepted and now = 7, THEN conjunct1, rule_format, OF hb]
  note many = heartbeat_frames_not_dispatched [where codec = wire and srv = ?P
      and conn = accepted and frames = ?frames, THEN conjunct2, THEN conjunct2]
  have idx: "[0..<length ?frames] = [0, 1, 2]"
    by (simp add: upt_0_Suc del: upt_Suc)
  have w: "written (subscribe wire ?P accepted ?frames)
       = [statusByte (fst (invokeComposeChainRequest wire ?P [1, 2, 3]))]"
    using many [THEN conjunct2] hb nhb
    by (simp add: idx afterData_def accepted_def) (simp add: wire_def)
  have d: "dispatched (subscribe wire ?P accepted ?frames) = [[1, 2, 3]]"
    using many [THEN conjunct1] hb nhb
    by (simp add: accepted_def)
  from one w d show ?thesis
    by (simp add: accepted_def)
qed

text \<open>
  C10. A request without group is matched as a request with the empty group, so it can
  match a descriptor whose group was defaulted. A request without version is matched
  with \<^verbatim>\<open>undefined\<close> as its version: it matches no descriptor of a server in service,
  all of which have a version, and the dispatch yields \<^verbatim>\<open>SERVICE_NOT_FOUND\<close>.
\<close>

theorem absent_version_never_matches:
  "matchService srv (req\<lparr>attachment := (attachment req)\<lparr>Attachment.group := None\<rparr>\<rparr>)
     = matchService srv (req\<lparr>attachment := (attachment req)\<lparr>Attachment.group := Some []\<rparr>\<rparr>)
   \<and> (Attachment.version (attachment req) = None \<longrightarrow>
        matchService (started env p reg (Some ss) fs) req = None
        \<and> status (fst (dispatchRequest chk (started env p reg (Some ss) fs) req))
            = Some SERVICE_NOT_FOUND)"
proof (intro conjI impI)
  show "matchService srv (req\<lparr>attachment := (attachment req)\<lparr>Attachment.group := None\<rparr>\<rparr>)
     = matchService srv (req\<lparr>attachment := (attachment req)\<lparr>Attachment.group := Some []\<rparr>\<rparr>)"
    by (simp add: matchService_def split: option.splits)
next
  assume v: "Attachment.version (attachment req) = None"
  show m: "matchService (started env p reg (Some ss) fs) req = None"
    using started_version [of env p reg ss fs "path (attachment req)"]
    by (auto simp: matchService_def v split: option.splits)
  then show "status (fst (dispatchRequest chk (started env p reg (Some ss) fs) req))
            = Some SERVICE_NOT_FOUND"
    by (simp add: dispatchRequest_def Let_def)
qed

theorem absent_version_never_matches_witness:
  "matchService (provider [fooBar] []) (helloRequest (Some []) (Some ''0.0.0''))
     = Some (normalize fooBar)
   \<and> matchService (provider [fooBar] []) (helloRequest None None) = None
   \<and> status (fst (dispatchRequest javaTyped (provider [fooBar] []) (helloRequest None None)))
       = Some SERVICE_NOT_FOUND"
  using absent_version_never_matches [of "provider [fooBar] []" "helloRequest None (Some ''0.0.0'')"
      localhost 20880 "''localhost:2181''" "[fooBar]" "[]" javaTyped, THEN conjunct1]
    absent_version_never_matches [of "provider [fooBar] []" "helloRequest None None"
      localhost 20880 "''localhost:2181''" "[fooBar]" "[]" javaTyped, THEN conjunct2]
    matchService_hello [of "[]"]
  by (simp add: provider_def helloRequest_def)

end
